theory Spec2Isabelle
  imports Complex_Main
begin

section \<open>Flow Theory engines: a shallow embedding\<close>

text \<open>
  The repository is a family of discrete-time simulators written in Python. A
  Python \<^verbatim>\<open>int\<close> (a step count) is an \<^typ>\<open>int\<close>, an optional list is a
  list \<^verbatim>\<open>option\<close>, and a failed \<^verbatim>\<open>assert\<close> is the error value of a sum type.

  The arithmetic is embedded twice. The first embedding reads every
  \<^verbatim>\<open>float\<close> as a \<^typ>\<open>real\<close>: it carries the properties that do not
  depend on rounding (index alignment, history shape, bounds kept by the
  clamps). The second embedding, of Engine A and Engine C, reads a
  \<^verbatim>\<open>float\<close> as a binary64 value (finite, infinite or NaN) and rounds
  every operation to nearest, ties to even, as CPython does: it carries the
  properties that say which values the code returns.

  Record fields carry a short prefix (\<open>st_\<close>, \<open>p_\<close>, ...), since the source
  reuses the field names \<open>F\<close>, \<open>C\<close>, \<open>T\<close>, \<open>D\<close>, \<open>r\<close>, \<open>alpha\<close>, ... across
  several classes and as local variables.
\<close>

subsection \<open>Engine A (\<^verbatim>\<open>engine_a.py\<close>)\<close>

record EngineAState =
  st_F :: real
  st_C :: real
  st_T :: real
  st_D :: real

record EngineAParams =
  p_r :: real
  p_alpha :: real
  p_delta :: real
  p_lambda_trust :: real
  p_rho_trust :: real
  p_kappa_capacity :: real

text \<open>
  The structural overload \<^verbatim>\<open>max(0.0, F - C)\<close>, written out in
  \<^verbatim>\<open>engine_a_step\<close> (line 56), twice in \<^verbatim>\<open>engine_b_step\<close> (lines 65-66)
  and in the first loop of \<^verbatim>\<open>engine_c_step\<close> (line 51).
\<close>

definition pressure :: "real \<Rightarrow> real \<Rightarrow> real" where
  "pressure F C = max 0 (F - C)"

definition engine_a_step ::
  "EngineAState \<Rightarrow> EngineAParams \<Rightarrow> real \<Rightarrow> real \<Rightarrow> EngineAState" where
  "engine_a_step state params shock_F shock_C =
     (let F = st_F state; C = st_C state; T = st_T state; D = st_D state;
          P = pressure F C;
          D_next = D + p_alpha params * P - p_delta params * D;
          T_next = T + p_rho_trust params - p_lambda_trust params * P;
          T_next = max 0 (min 1 T_next);
          C_next = C + p_kappa_capacity params * (F - C) + shock_C;
          F_next = F + p_r params * T_next + shock_F - P
      in \<lparr>st_F = F_next, st_C = C_next, st_T = T_next, st_D = D_next\<rparr>)"

text \<open>
  \<^verbatim>\<open>shocks[t] if shocks is not None and t < len(shocks) else 0.0\<close>, the
  guarded read of an optional shock list used by \<^verbatim>\<open>run_engine_a\<close> and by
  \<^verbatim>\<open>engine_c_step\<close>. The index comes from a \<^verbatim>\<open>range\<close>, so it is never
  negative.
\<close>

definition shock_at :: "real list option \<Rightarrow> nat \<Rightarrow> real" where
  "shock_at shocks t =
     (case shocks of
        None \<Rightarrow> 0
      | Some l \<Rightarrow> if t < length l then l ! t else 0)"

text \<open>\<^verbatim>\<open>range(n)\<close> for a Python int: empty when \<open>n \<le> 0\<close>.\<close>

definition range_py :: "int \<Rightarrow> nat list" where
  "range_py n = [0..<nat n]"

text \<open>
  The loop of \<^verbatim>\<open>run_engine_a\<close>: the arguments are the remaining values of
  \<open>t\<close>, the current \<open>state\<close> and the \<open>history\<close> built so far.
\<close>

fun run_engine_a_loop ::
  "EngineAParams \<Rightarrow> real list option \<Rightarrow> real list option \<Rightarrow> nat list \<Rightarrow>
   EngineAState \<Rightarrow> EngineAState list \<Rightarrow> EngineAState list" where
  "run_engine_a_loop params shocks_F shocks_C [] state history = history"
| "run_engine_a_loop params shocks_F shocks_C (t # ts) state history =
     (let sF = shock_at shocks_F t;
          sC = shock_at shocks_C t;
          state' = engine_a_step state params sF sC
      in run_engine_a_loop params shocks_F shocks_C ts state' (history @ [state']))"

definition run_engine_a ::
  "EngineAState \<Rightarrow> EngineAParams \<Rightarrow> int \<Rightarrow> real list option \<Rightarrow> real list option \<Rightarrow>
   EngineAState list" where
  "run_engine_a state params steps shocks_F shocks_C =
     run_engine_a_loop params shocks_F shocks_C (range_py steps) state [state]"

subsection \<open>Engine B (\<^verbatim>\<open>engine_b.py\<close>)\<close>

record EngineBLayerParams =
  bl_r :: real
  bl_alpha :: real
  bl_delta :: real
  bl_lambda_trust :: real
  bl_rho_trust :: real
  bl_kappa_capacity :: real
  bl_beta_drift_from_other :: real

record EngineBParams =
  bp_fast :: EngineBLayerParams
  bp_slow :: EngineBLayerParams
  bp_gamma_fs :: real

record EngineBState =
  bs_fast :: EngineAState
  bs_slow :: EngineAState

definition engine_b_step ::
  "EngineBState \<Rightarrow> EngineBParams \<Rightarrow> real \<Rightarrow> real \<Rightarrow> real \<Rightarrow> real \<Rightarrow> EngineBState" where
  "engine_b_step state params shock_F_fast shock_C_fast shock_F_slow shock_C_slow =
     (let Ff = st_F (bs_fast state); Cf = st_C (bs_fast state);
          Tf = st_T (bs_fast state); Df = st_D (bs_fast state);
          Fs = st_F (bs_slow state); Cs = st_C (bs_slow state);
          Ts = st_T (bs_slow state); Ds = st_D (bs_slow state);
          Pf = pressure Ff Cf;
          Ps = pressure Fs Cs;
          Df_next = Df + bl_alpha (bp_fast params) * Pf - bl_delta (bp_fast params) * Df;
          Tf_next = Tf + bl_rho_trust (bp_fast params) - bl_lambda_trust (bp_fast params) * Pf;
          Tf_next = max 0 (min 1 Tf_next);
          Cf_next = Cf + bl_kappa_capacity (bp_fast params) * (Ff - Cf) + shock_C_fast;
          Ff_next = Ff + bl_r (bp_fast params) * Tf_next + bp_gamma_fs params * Ts
                      + shock_F_fast - Pf;
          Ds_next = Ds + (bl_alpha (bp_slow params) * Ps
                          + bl_beta_drift_from_other (bp_slow params) * Pf
                          - bl_delta (bp_slow params) * Ds);
          Ts_next = Ts + bl_rho_trust (bp_slow params) - bl_lambda_trust (bp_slow params) * Ps;
          Ts_next = max 0 (min 1 Ts_next);
          Cs_next = Cs + bl_kappa_capacity (bp_slow params) * (Fs - Cs) + shock_C_slow;
          Fs_next = Fs + bl_r (bp_slow params) * Ts_next + shock_F_slow - Ps;
          fast_next = \<lparr>st_F = Ff_next, st_C = Cf_next, st_T = Tf_next, st_D = Df_next\<rparr>;
          slow_next = \<lparr>st_F = Fs_next, st_C = Cs_next, st_T = Ts_next, st_D = Ds_next\<rparr>
      in \<lparr>bs_fast = fast_next, bs_slow = slow_next\<rparr>)"

fun run_engine_b_loop ::
  "EngineBParams \<Rightarrow> nat list \<Rightarrow> EngineBState \<Rightarrow> EngineBState list \<Rightarrow> EngineBState list" where
  "run_engine_b_loop params [] state history = history"
| "run_engine_b_loop params (t # ts) state history =
     (let state' = engine_b_step state params 0 0 0 0
      in run_engine_b_loop params ts state' (history @ [state']))"

definition run_engine_b :: "EngineBState \<Rightarrow> EngineBParams \<Rightarrow> int \<Rightarrow> EngineBState list" where
  "run_engine_b state params steps = run_engine_b_loop params (range_py steps) state [state]"

subsection \<open>Engine C (\<^verbatim>\<open>engine_c.py\<close>)\<close>

record EngineCState =
  systems :: "EngineAState list"

record EngineCParams =
  params_per_system :: "EngineAParams list"
  coupling_W :: "real list list"

datatype error = AssertionError

text \<open>First loop of \<^verbatim>\<open>engine_c_step\<close>: one pressure per system, in order.\<close>

definition pressures_of :: "EngineAState list \<Rightarrow> real list" where
  "pressures_of ss = map (\<lambda>s. pressure (st_F s) (st_C s)) ss"

text \<open>
  Inner loop over \<open>j\<close>: \<^verbatim>\<open>total = 0.0\<close>, then
  \<^verbatim>\<open>total += params.W[i][j] * pressures[j]\<close> for \<open>j\<close> in \<^verbatim>\<open>range(N)\<close>.
\<close>

definition coupling_total :: "real list list \<Rightarrow> real list \<Rightarrow> nat \<Rightarrow> nat \<Rightarrow> real" where
  "coupling_total W pressures N i =
     foldl (\<lambda>total j. total + W ! i ! j * pressures ! j) 0 [0..<N]"

text \<open>
  Outer loop over \<open>i\<close>: the list starts as \<^verbatim>\<open>[0.0] * N\<close> and entry \<open>i\<close> is
  overwritten with the total of row \<open>i\<close>.
\<close>

definition endogenous_shocks_F :: "real list list \<Rightarrow> real list \<Rightarrow> nat \<Rightarrow> real list" where
  "endogenous_shocks_F W pressures N =
     foldl (\<lambda>endo i. endo[i := coupling_total W pressures N i]) (replicate N 0) [0..<N]"

text \<open>
  The two assertions guard every index of the loops below them: once they
  pass, \<open>W ! i ! j\<close>, \<open>pressures ! j\<close>, \<open>systems ! i\<close> and
  \<open>params_per_system ! i\<close> are all in range.
\<close>

definition engine_c_step ::
  "EngineCState \<Rightarrow> EngineCParams \<Rightarrow> real list option \<Rightarrow> real list option \<Rightarrow>
   error + EngineCState" where
  "engine_c_step state params shocks_F shocks_C =
     (let N = length (systems state) in
      if length (params_per_system params) \<noteq> N then Inl AssertionError
      else if \<not> (length (coupling_W params) = N \<and>
                   list_all (\<lambda>row. length row = N) (coupling_W params))
      then Inl AssertionError
      else
        let pressures = pressures_of (systems state);
            endo = endogenous_shocks_F (coupling_W params) pressures N;
            new_systems =
              map (\<lambda>i. let s = systems state ! i;
                            p = params_per_system params ! i;
                            exo_F = shock_at shocks_F i;
                            exo_C = shock_at shocks_C i;
                            total_F_shock = exo_F + endo ! i
                        in engine_a_step s p total_F_shock exo_C) [0..<N]
        in Inr \<lparr>systems = new_systems\<rparr>)"

fun run_engine_c_loop ::
  "EngineCParams \<Rightarrow> nat list \<Rightarrow> EngineCState \<Rightarrow> EngineCState list \<Rightarrow>
   error + EngineCState list" where
  "run_engine_c_loop params [] state history = Inr history"
| "run_engine_c_loop params (t # ts) state history =
     (case engine_c_step state params None None of
        Inl e \<Rightarrow> Inl e
      | Inr state' \<Rightarrow> run_engine_c_loop params ts state' (history @ [state']))"

definition run_engine_c ::
  "EngineCState \<Rightarrow> EngineCParams \<Rightarrow> int \<Rightarrow> error + EngineCState list" where
  "run_engine_c state params steps = run_engine_c_loop params (range_py steps) state [state]"

subsection \<open>Kernel 2 and Kernel 3 (\<^verbatim>\<open>kernel_2_capacity_pressure.py\<close>, \<^verbatim>\<open>kernel_3_drift_cycle.py\<close>)\<close>

text \<open>Returns \<open>(stock_next, capacity_next, flow, pressure)\<close>.\<close>

definition kernel2_step :: "real \<Rightarrow> real \<Rightarrow> real \<Rightarrow> real \<Rightarrow> real \<Rightarrow> real \<times> real \<times> real \<times> real" where
  "kernel2_step stock capacity inflow outflow k_capacity =
     (let flow = inflow - outflow;
          pressure' = flow - capacity;
          stock_next = stock + inflow - outflow;
          capacity_next = capacity + k_capacity * (flow - capacity)
      in (stock_next, capacity_next, flow, pressure'))"

text \<open>Returns \<open>(stock_next, capacity_next, drift_next, flow, pressure)\<close>.\<close>

definition kernel3_step ::
  "real \<Rightarrow> real \<Rightarrow> real \<Rightarrow> real \<Rightarrow> real \<Rightarrow> real \<Rightarrow> real \<Rightarrow> real \<Rightarrow>
   real \<times> real \<times> real \<times> real \<times> real" where
  "kernel3_step stock capacity drift inflow outflow k_capacity alpha delta =
     (let flow = inflow - outflow;
          pressure' = flow - capacity;
          stock_next = stock + inflow - outflow;
          capacity_next = capacity + k_capacity * (flow - capacity);
          drift_next = (1 - delta) * drift + alpha * pressure'
      in (stock_next, capacity_next, drift_next, flow, pressure'))"

subsection \<open>Two-system contagion kernel (\<^verbatim>\<open>two_system_contagion_kernel.py\<close>)\<close>

record TwoSystemState =
  ts_t :: int
  ts_F1 :: real
  ts_C1 :: real
  ts_P1 :: real
  ts_D1 :: real
  ts_F2 :: real
  ts_C2 :: real
  ts_P2 :: real
  ts_D2 :: real
  ts_T :: real

text \<open>
  Returns \<open>(F1_next, C1_next, D1_next, F2_next, C2_next, D2_next, T_next, P1, P2)\<close>.
  The pressures are signed here, and the trust update has a lower clamp only.
\<close>

definition two_system_step ::
  "real \<Rightarrow> real \<Rightarrow> real \<Rightarrow> real \<Rightarrow> real \<Rightarrow> real \<Rightarrow> real \<Rightarrow>
   real \<Rightarrow> real \<Rightarrow> real \<Rightarrow> real \<Rightarrow> real \<Rightarrow> real \<Rightarrow> real \<Rightarrow> real \<Rightarrow> real \<Rightarrow> real \<Rightarrow> real \<Rightarrow>
   real \<times> real \<times> real \<times> real \<times> real \<times> real \<times> real \<times> real \<times> real" where
  "two_system_step F1 C1 D1 F2 C2 D2 T
                   k1 k2 alpha1 alpha2 delta1 delta2 r1 r2 lambda_T coupling shock1 =
     (let P1 = F1 - C1;
          P2 = F2 - C2;
          D1_next = (1 - delta1) * D1 + alpha1 * P1;
          D2_next = (1 - delta2) * D2 + alpha2 * (P2 + coupling * P1);
          total_pressure = \<bar>P1\<bar> + \<bar>P2\<bar>;
          T_next = max 0 (T - lambda_T * total_pressure);
          F1_next = F1 + r1 * T - D1 - P1 + shock1;
          F2_next = F2 + r2 * T - D2 - P2;
          C1_next = C1 + k1 * (F1 - C1);
          C2_next = C2 + k2 * (F2 - C2)
      in (F1_next, C1_next, D1_next, F2_next, C2_next, D2_next, T_next, P1, P2))"

text \<open>
  The structural parameters of \<^verbatim>\<open>simulate_two_system_kernel\<close>, which the
  loop only reads, are gathered in one record; the loop variables
  \<open>F1, C1, D1, F2, C2, D2, T\<close> and the list \<open>states\<close> are its arguments.
\<close>

record TwoSystemParams =
  tp_k1 :: real
  tp_k2 :: real
  tp_alpha1 :: real
  tp_alpha2 :: real
  tp_delta1 :: real
  tp_delta2 :: real
  tp_r1 :: real
  tp_r2 :: real
  tp_lambda_T :: real
  tp_coupling :: real
  tp_bubble_steps :: int
  tp_bubble_shock :: real

fun simulate_two_system_loop ::
  "TwoSystemParams \<Rightarrow> nat list \<Rightarrow> real \<Rightarrow> real \<Rightarrow> real \<Rightarrow> real \<Rightarrow> real \<Rightarrow> real \<Rightarrow> real \<Rightarrow>
   TwoSystemState list \<Rightarrow> TwoSystemState list" where
  "simulate_two_system_loop ps [] F1 C1 D1 F2 C2 D2 T states = states"
| "simulate_two_system_loop ps (t # ts) F1 C1 D1 F2 C2 D2 T states =
     (let shock1 = (if int t < tp_bubble_steps ps then tp_bubble_shock ps else 0)
      in case two_system_step F1 C1 D1 F2 C2 D2 T
                (tp_k1 ps) (tp_k2 ps) (tp_alpha1 ps) (tp_alpha2 ps)
                (tp_delta1 ps) (tp_delta2 ps) (tp_r1 ps) (tp_r2 ps)
                (tp_lambda_T ps) (tp_coupling ps) shock1 of
           (F1', C1', D1', F2', C2', D2', T', P1, P2) \<Rightarrow>
             simulate_two_system_loop ps ts F1' C1' D1' F2' C2' D2' T'
               (states @ [\<lparr>ts_t = int t, ts_F1 = F1', ts_C1 = C1', ts_P1 = P1, ts_D1 = D1',
                           ts_F2 = F2', ts_C2 = C2', ts_P2 = P2, ts_D2 = D2', ts_T = T'\<rparr>]))"

definition simulate_two_system_kernel ::
  "int \<Rightarrow> real \<Rightarrow> real \<Rightarrow> real \<Rightarrow> real \<Rightarrow> real \<Rightarrow> real \<Rightarrow> real \<Rightarrow> TwoSystemParams \<Rightarrow>
   TwoSystemState list" where
  "simulate_two_system_kernel T_steps F1_0 C1_0 D1_0 F2_0 C2_0 D2_0 T0 ps =
     simulate_two_system_loop ps (range_py T_steps) F1_0 C1_0 D1_0 F2_0 C2_0 D2_0 T0 []"

subsection \<open>Binary64 arithmetic\<close>

text \<open>
  A Python \<^verbatim>\<open>float\<close>: a finite value, an infinity or NaN. The sign of a
  zero is not kept: \<^verbatim>\<open>==\<close> does not see it and the engines never divide.
  Equality of the model is identity of values, so \<open>NaN = NaN\<close> here, where
  Python's \<^verbatim>\<open>nan == nan\<close> is false.
\<close>

datatype pyfloat = Fin real | PosInf | NegInf | NaN

text \<open>
  The binade of a non-zero real: \<open>exponent64 x\<close> is \<open>\<lfloor>log\<^sub>2 \<bar>x\<bar>\<rfloor>\<close>, kept within
  \<open>-1022\<close> (below it the values are subnormal and share the spacing
  \<open>2\<^sup>-\<^sup>1\<^sup>0\<^sup>7\<^sup>4\<close>) and \<open>1023\<close> (the largest binade). It is found by halving or
  doubling, at most 1023 and 1022 times.
\<close>

fun binade_up :: "nat \<Rightarrow> real \<Rightarrow> int \<Rightarrow> int" where
  "binade_up 0 x e = e"
| "binade_up (Suc n) x e = (if 2 \<le> x then binade_up n (x / 2) (e + 1) else e)"

fun binade_down :: "nat \<Rightarrow> real \<Rightarrow> int \<Rightarrow> int" where
  "binade_down 0 x e = e"
| "binade_down (Suc n) x e = (if x < 1 then binade_down n (2 * x) (e - 1) else e)"

definition exponent64 :: "real \<Rightarrow> int" where
  "exponent64 x = (if 1 \<le> \<bar>x\<bar> then binade_up 1023 \<bar>x\<bar> 0 else binade_down 1022 \<bar>x\<bar> 0)"

text \<open>Rounding to the nearest integer, a tie going to the even one.\<close>

definition round_half_even :: "real \<Rightarrow> int" where
  "round_half_even x =
     (let n = \<lfloor>x\<rfloor>; d = x - of_int n
      in if d < 1 / 2 then n else if 1 / 2 < d then n + 1 else if even n then n else n + 1)"

text \<open>
  Rounding a real to binary64: the value is scaled to 53 significant bits in
  its binade, rounded to an integer and scaled back; a result of magnitude
  \<open>2\<^sup>1\<^sup>0\<^sup>2\<^sup>4\<close> or more overflows to an infinity.
\<close>

definition round64 :: "real \<Rightarrow> pyfloat" where
  "round64 x =
     (if x = 0 then Fin 0
      else let q = exponent64 x - 52;
               r = of_int (round_half_even (x / 2 powi q)) * 2 powi q
           in if 2 ^ 1024 \<le> r then PosInf
              else if r \<le> - (2 ^ 1024) then NegInf
              else Fin r)"

text \<open>A decimal literal of the source denotes the binary64 value nearest to it.\<close>

definition lit :: "real \<Rightarrow> pyfloat" where
  "lit x = round64 x"

text \<open>
  \<open>+\<close>, \<open>-\<close>, \<open>*\<close> and \<open><\<close> on floats, as IEEE 754 defines them: NaN
  propagates, \<open>\<infinity> - \<infinity>\<close> and \<open>0 * \<infinity>\<close> are NaN, every comparison with NaN is
  false, and a finite result is rounded.
\<close>

instantiation pyfloat :: "{zero, one, plus, uminus, minus, times, ord}"
begin

definition zero_pyfloat :: pyfloat where
  "zero_pyfloat = Fin 0"

definition one_pyfloat :: pyfloat where
  "one_pyfloat = Fin 1"

fun plus_pyfloat :: "pyfloat \<Rightarrow> pyfloat \<Rightarrow> pyfloat" where
  "plus_pyfloat NaN b = NaN"
| "plus_pyfloat a NaN = NaN"
| "plus_pyfloat PosInf NegInf = NaN"
| "plus_pyfloat NegInf PosInf = NaN"
| "plus_pyfloat PosInf b = PosInf"
| "plus_pyfloat a PosInf = PosInf"
| "plus_pyfloat NegInf b = NegInf"
| "plus_pyfloat a NegInf = NegInf"
| "plus_pyfloat (Fin x) (Fin y) = round64 (x + y)"

fun uminus_pyfloat :: "pyfloat \<Rightarrow> pyfloat" where
  "uminus_pyfloat NaN = NaN"
| "uminus_pyfloat PosInf = NegInf"
| "uminus_pyfloat NegInf = PosInf"
| "uminus_pyfloat (Fin x) = Fin (- x)"

definition minus_pyfloat :: "pyfloat \<Rightarrow> pyfloat \<Rightarrow> pyfloat" where
  "minus_pyfloat a b = a + (- b)"

fun times_pyfloat :: "pyfloat \<Rightarrow> pyfloat \<Rightarrow> pyfloat" where
  "times_pyfloat NaN b = NaN"
| "times_pyfloat a NaN = NaN"
| "times_pyfloat (Fin x) (Fin y) = round64 (x * y)"
| "times_pyfloat (Fin x) PosInf = (if x = 0 then NaN else if 0 < x then PosInf else NegInf)"
| "times_pyfloat (Fin x) NegInf = (if x = 0 then NaN else if 0 < x then NegInf else PosInf)"
| "times_pyfloat PosInf (Fin y) = (if y = 0 then NaN else if 0 < y then PosInf else NegInf)"
| "times_pyfloat NegInf (Fin y) = (if y = 0 then NaN else if 0 < y then NegInf else PosInf)"
| "times_pyfloat PosInf PosInf = PosInf"
| "times_pyfloat PosInf NegInf = NegInf"
| "times_pyfloat NegInf PosInf = NegInf"
| "times_pyfloat NegInf NegInf = PosInf"

fun less_pyfloat :: "pyfloat \<Rightarrow> pyfloat \<Rightarrow> bool" where
  "less_pyfloat NaN b = False"
| "less_pyfloat a NaN = False"
| "less_pyfloat (Fin x) (Fin y) = (x < y)"
| "less_pyfloat a NegInf = False"
| "less_pyfloat PosInf b = False"
| "less_pyfloat NegInf b = True"
| "less_pyfloat a PosInf = True"

definition less_eq_pyfloat :: "pyfloat \<Rightarrow> pyfloat \<Rightarrow> bool" where
  "less_eq_pyfloat a b \<longleftrightarrow> a < b \<or> (a = b \<and> a \<noteq> NaN)"

instance ..

end

text \<open>
  Python's \<^verbatim>\<open>max(a, b)\<close> and \<^verbatim>\<open>min(a, b)\<close> on two arguments keep the
  first unless the second is strictly greater (smaller), so
  \<^verbatim>\<open>max(0.0, nan)\<close> is \<open>0.0\<close> and \<^verbatim>\<open>min(1.0, nan)\<close> is \<open>1.0\<close>.
\<close>

definition py_max :: "pyfloat \<Rightarrow> pyfloat \<Rightarrow> pyfloat" where
  "py_max a b = (if a < b then b else a)"

definition py_min :: "pyfloat \<Rightarrow> pyfloat \<Rightarrow> pyfloat" where
  "py_min a b = (if b < a then b else a)"

subsection \<open>Engine A over binary64 (\<^verbatim>\<open>engine_a.py\<close>)\<close>

text \<open>
  The same functions as above, line for line, with the operations of
  \<^typ>\<open>pyfloat\<close>. Python evaluates \<^verbatim>\<open>a + b + c - d\<close> from the left, as
  the infix operators of HOL associate.
\<close>

record EngineAState64 =
  f_F :: pyfloat
  f_C :: pyfloat
  f_T :: pyfloat
  f_D :: pyfloat

record EngineAParams64 =
  f_r :: pyfloat
  f_alpha :: pyfloat
  f_delta :: pyfloat
  f_lambda_trust :: pyfloat
  f_rho_trust :: pyfloat
  f_kappa_capacity :: pyfloat

definition pressure64 :: "pyfloat \<Rightarrow> pyfloat \<Rightarrow> pyfloat" where
  "pressure64 F C = py_max 0 (F - C)"

definition engine_a_step64 ::
  "EngineAState64 \<Rightarrow> EngineAParams64 \<Rightarrow> pyfloat \<Rightarrow> pyfloat \<Rightarrow> EngineAState64" where
  "engine_a_step64 state params shock_F shock_C =
     (let F = f_F state; C = f_C state; T = f_T state; D = f_D state;
          P = pressure64 F C;
          D_next = D + f_alpha params * P - f_delta params * D;
          T_next = T + f_rho_trust params - f_lambda_trust params * P;
          T_next = py_max 0 (py_min 1 T_next);
          C_next = C + f_kappa_capacity params * (F - C) + shock_C;
          F_next = F + f_r params * T_next + shock_F - P
      in \<lparr>f_F = F_next, f_C = C_next, f_T = T_next, f_D = D_next\<rparr>)"

definition shock_at64 :: "pyfloat list option \<Rightarrow> nat \<Rightarrow> pyfloat" where
  "shock_at64 shocks t =
     (case shocks of
        None \<Rightarrow> 0
      | Some l \<Rightarrow> if t < length l then l ! t else 0)"

fun run_engine_a64_loop ::
  "EngineAParams64 \<Rightarrow> pyfloat list option \<Rightarrow> pyfloat list option \<Rightarrow> nat list \<Rightarrow>
   EngineAState64 \<Rightarrow> EngineAState64 list \<Rightarrow> EngineAState64 list" where
  "run_engine_a64_loop params shocks_F shocks_C [] state history = history"
| "run_engine_a64_loop params shocks_F shocks_C (t # ts) state history =
     (let sF = shock_at64 shocks_F t;
          sC = shock_at64 shocks_C t;
          state' = engine_a_step64 state params sF sC
      in run_engine_a64_loop params shocks_F shocks_C ts state' (history @ [state']))"

definition run_engine_a64 ::
  "EngineAState64 \<Rightarrow> EngineAParams64 \<Rightarrow> int \<Rightarrow> pyfloat list option \<Rightarrow> pyfloat list option \<Rightarrow>
   EngineAState64 list" where
  "run_engine_a64 state params steps shocks_F shocks_C =
     run_engine_a64_loop params shocks_F shocks_C (range_py steps) state [state]"

subsection \<open>Engine C over binary64 (\<^verbatim>\<open>engine_c.py\<close>)\<close>

record EngineCState64 =
  systems64 :: "EngineAState64 list"

record EngineCParams64 =
  params_per_system64 :: "EngineAParams64 list"
  coupling_W64 :: "pyfloat list list"

definition pressures_of64 :: "EngineAState64 list \<Rightarrow> pyfloat list" where
  "pressures_of64 ss = map (\<lambda>s. pressure64 (f_F s) (f_C s)) ss"

definition coupling_total64 :: "pyfloat list list \<Rightarrow> pyfloat list \<Rightarrow> nat \<Rightarrow> nat \<Rightarrow> pyfloat" where
  "coupling_total64 W pressures N i =
     foldl (\<lambda>total j. total + W ! i ! j * pressures ! j) 0 [0..<N]"

definition endogenous_shocks_F64 :: "pyfloat list list \<Rightarrow> pyfloat list \<Rightarrow> nat \<Rightarrow> pyfloat list" where
  "endogenous_shocks_F64 W pressures N =
     foldl (\<lambda>endo i. endo[i := coupling_total64 W pressures N i]) (replicate N 0) [0..<N]"

definition engine_c_step64 ::
  "EngineCState64 \<Rightarrow> EngineCParams64 \<Rightarrow> pyfloat list option \<Rightarrow> pyfloat list option \<Rightarrow>
   error + EngineCState64" where
  "engine_c_step64 state params shocks_F shocks_C =
     (let N = length (systems64 state) in
      if length (params_per_system64 params) \<noteq> N then Inl AssertionError
      else if \<not> (length (coupling_W64 params) = N \<and>
                   list_all (\<lambda>row. length row = N) (coupling_W64 params))
      then Inl AssertionError
      else
        let pressures = pressures_of64 (systems64 state);
            endo = endogenous_shocks_F64 (coupling_W64 params) pressures N;
            new_systems =
              map (\<lambda>i. let s = systems64 state ! i;
                            p = params_per_system64 params ! i;
                            exo_F = shock_at64 shocks_F i;
                            exo_C = shock_at64 shocks_C i;
                            total_F_shock = exo_F + endo ! i
                        in engine_a_step64 s p total_F_shock exo_C) [0..<N]
        in Inr \<lparr>systems64 = new_systems\<rparr>)"

fun run_engine_c64_loop ::
  "EngineCParams64 \<Rightarrow> nat list \<Rightarrow> EngineCState64 \<Rightarrow> EngineCState64 list \<Rightarrow>
   error + EngineCState64 list" where
  "run_engine_c64_loop params [] state history = Inr history"
| "run_engine_c64_loop params (t # ts) state history =
     (case engine_c_step64 state params None None of
        Inl e \<Rightarrow> Inl e
      | Inr state' \<Rightarrow> run_engine_c64_loop params ts state' (history @ [state']))"

definition run_engine_c64 ::
  "EngineCState64 \<Rightarrow> EngineCParams64 \<Rightarrow> int \<Rightarrow> error + EngineCState64 list" where
  "run_engine_c64 state params steps = run_engine_c64_loop params (range_py steps) state [state]"

subsection \<open>Predicates and abbreviations used by the properties\<close>

text \<open>The clamp invariant of a single system's trust.\<close>

definition trust_ok :: "EngineAState \<Rightarrow> bool" where
  "trust_ok s \<longleftrightarrow> 0 \<le> st_T s \<and> st_T s \<le> 1"

text \<open>
  The entry that the body of the loop of \<^verbatim>\<open>simulate_two_system_kernel\<close>
  appends at step \<open>t\<close>, as a function of the values the loop variables have
  when the iteration starts.
\<close>

definition two_system_record ::
  "TwoSystemParams \<Rightarrow> nat \<Rightarrow> real \<Rightarrow> real \<Rightarrow> real \<Rightarrow> real \<Rightarrow> real \<Rightarrow> real \<Rightarrow> real \<Rightarrow>
   TwoSystemState" where
  "two_system_record ps t F1 C1 D1 F2 C2 D2 T =
     (case two_system_step F1 C1 D1 F2 C2 D2 T
             (tp_k1 ps) (tp_k2 ps) (tp_alpha1 ps) (tp_alpha2 ps)
             (tp_delta1 ps) (tp_delta2 ps) (tp_r1 ps) (tp_r2 ps)
             (tp_lambda_T ps) (tp_coupling ps)
             (if int t < tp_bubble_steps ps then tp_bubble_shock ps else 0) of
        (F1', C1', D1', F2', C2', D2', T', P1, P2) \<Rightarrow>
          \<lparr>ts_t = int t, ts_F1 = F1', ts_C1 = C1', ts_P1 = P1, ts_D1 = D1',
           ts_F2 = F2', ts_C2 = C2', ts_P2 = P2, ts_D2 = D2', ts_T = T'\<rparr>)"

text \<open>
  A real that binary64 holds exactly, a float whose value is one, and a float
  that is finite.
\<close>

definition exact64 :: "real \<Rightarrow> bool" where
  "exact64 x \<longleftrightarrow> round64 x = Fin x"

definition representable :: "pyfloat \<Rightarrow> bool" where
  "representable a = (case a of Fin x \<Rightarrow> exact64 x | _ \<Rightarrow> True)"

definition is_Fin :: "pyfloat \<Rightarrow> bool" where
  "is_Fin a = (case a of Fin x \<Rightarrow> True | _ \<Rightarrow> False)"

subsection \<open>Example inputs\<close>

text \<open>The parameters and the state of the single-system scenario of the specification.\<close>

abbreviation scenario_params :: EngineAParams where
  "scenario_params \<equiv>
     \<lparr>p_r = 0.1, p_alpha = 0.2, p_delta = 0.1, p_lambda_trust = 0.05,
      p_rho_trust = 0.02, p_kappa_capacity = 0.3\<rparr>"

abbreviation scenario_state :: EngineAState where
  "scenario_state \<equiv> \<lparr>st_F = 10, st_C = 8, st_T = 0.5, st_D = 0\<rparr>"

text \<open>A second system, with flow 9 over capacity 4: its pressure is 5.\<close>

abbreviation loaded_state :: EngineAState where
  "loaded_state \<equiv> \<lparr>st_F = 9, st_C = 4, st_T = 1, st_D = 0\<rparr>"

text \<open>The default parameters of \<^verbatim>\<open>simulate_two_system_kernel\<close>.\<close>

abbreviation default_two_system_params :: TwoSystemParams where
  "default_two_system_params \<equiv>
     \<lparr>tp_k1 = 0.2, tp_k2 = 0.05, tp_alpha1 = 0.4, tp_alpha2 = 0.2,
      tp_delta1 = 0.1, tp_delta2 = 0.05, tp_r1 = 0.8, tp_r2 = 0.5,
      tp_lambda_T = 0.1, tp_coupling = 0.3, tp_bubble_steps = 10, tp_bubble_shock = 0.5\<rparr>"

text \<open>A two-layer configuration for Engine B.\<close>

abbreviation layer_params :: EngineBLayerParams where
  "layer_params \<equiv>
     \<lparr>bl_r = 0.1, bl_alpha = 0.2, bl_delta = 0.1, bl_lambda_trust = 0.05,
      bl_rho_trust = 0.02, bl_kappa_capacity = 0.3, bl_beta_drift_from_other = 0.1\<rparr>"

abbreviation two_layer_params :: EngineBParams where
  "two_layer_params \<equiv> \<lparr>bp_fast = layer_params, bp_slow = layer_params, bp_gamma_fs = 0.1\<rparr>"

abbreviation two_layer_state :: EngineBState where
  "two_layer_state \<equiv> \<lparr>bs_fast = scenario_state, bs_slow = loaded_state\<rparr>"

text \<open>
  The same inputs as floats, and a state whose pressure overflows:
  \<open>2\<^sup>1\<^sup>0\<^sup>2\<^sup>3 - (-2\<^sup>1\<^sup>0\<^sup>2\<^sup>3)\<close> is beyond the largest finite binary64 value.
\<close>

abbreviation scenario_params64 :: EngineAParams64 where
  "scenario_params64 \<equiv>
     \<lparr>f_r = lit 0.1, f_alpha = lit 0.2, f_delta = lit 0.1, f_lambda_trust = lit 0.05,
      f_rho_trust = lit 0.02, f_kappa_capacity = lit 0.3\<rparr>"

abbreviation scenario_state64 :: EngineAState64 where
  "scenario_state64 \<equiv> \<lparr>f_F = lit 10, f_C = lit 8, f_T = lit 0.5, f_D = lit 0\<rparr>"

abbreviation loaded_state64 :: EngineAState64 where
  "loaded_state64 \<equiv> \<lparr>f_F = lit 9, f_C = lit 4, f_T = lit 1, f_D = lit 0\<rparr>"

abbreviation overflowing_state64 :: EngineAState64 where
  "overflowing_state64 \<equiv>
     \<lparr>f_F = Fin (2 ^ 1023), f_C = Fin (- (2 ^ 1023)), f_T = lit 0.5, f_D = lit 0\<rparr>"

section \<open>Properties\<close>

subsection \<open>The coupling step of Engine C\<close>

lemma foldl_add_sum:
  "foldl (\<lambda>total j. total + f j) a [0..<n] = a + (\<Sum>j<n. f j)"
  by (induction n) (simp_all add: add.assoc)

lemma coupling_total_sum:
  "coupling_total W pressures N i = (\<Sum>j<N. W ! i ! j * pressures ! j)"
  unfolding coupling_total_def by (simp add: foldl_add_sum)

lemma foldl_update_upt:
  "k \<le> length xs \<Longrightarrow>
   foldl (\<lambda>endo i. endo[i := g i]) xs [0..<k] = map g [0..<k] @ drop k xs"
proof (induction k)
  case 0
  then show ?case by simp
next
  case (Suc k)
  then have k: "k < length xs" by simp
  have "foldl (\<lambda>endo i. endo[i := g i]) xs [0..<Suc k]
        = (map g [0..<k] @ drop k xs)[k := g k]"
    using Suc by simp
  also have "\<dots> = map g [0..<k] @ (drop k xs)[0 := g k]"
    by (simp add: list_update_append)
  also have "drop k xs = xs ! k # drop (Suc k) xs"
    using k by (simp add: Cons_nth_drop_Suc)
  finally show ?case by simp
qed

lemma endogenous_shocks_F_map:
  "endogenous_shocks_F W pressures N = map (coupling_total W pressures N) [0..<N]"
  unfolding endogenous_shocks_F_def by (simp add: foldl_update_upt)

lemma endogenous_shocks_F_nth:
  "i < N \<Longrightarrow> endogenous_shocks_F W (pressures_of ss) N ! i
     = (\<Sum>j<N. W ! i ! j * pressures_of ss ! j)"
  by (simp add: endogenous_shocks_F_map coupling_total_sum)

lemma pressures_of_nth:
  "j < length ss \<Longrightarrow> pressures_of ss ! j = pressure (st_F (ss ! j)) (st_C (ss ! j))"
  by (simp add: pressures_of_def)

lemma endogenous_shocks_F_pressure:
  assumes "i < length ss"
  shows "endogenous_shocks_F W (pressures_of ss) (length ss) ! i
     = (\<Sum>j<length ss. W ! i ! j * pressure (st_F (ss ! j)) (st_C (ss ! j)))"
  using assms by (simp add: endogenous_shocks_F_nth pressures_of_nth)

lemma engine_c_step_ok:
  assumes "length (params_per_system params) = length (systems state)"
      and "length (coupling_W params) = length (systems state)"
      and "list_all (\<lambda>row. length row = length (systems state)) (coupling_W params)"
  shows "engine_c_step state params shocks_F shocks_C =
     Inr \<lparr>systems = map (\<lambda>i. engine_a_step (systems state ! i) (params_per_system params ! i)
              (shock_at shocks_F i +
                 (\<Sum>j<length (systems state). coupling_W params ! i ! j *
                      pressure (st_F (systems state ! j)) (st_C (systems state ! j))))
              (shock_at shocks_C i)) [0..<length (systems state)]\<rparr>"
  using assms unfolding engine_c_step_def
  by (simp add: Let_def endogenous_shocks_F_pressure)

text \<open>
  C9. When the dimension checks pass, one Engine C step returns a network
  state with as many systems as it was given, and the system at index \<open>i\<close> of
  the result is the Engine A transition of the input system at index \<open>i\<close>
  under the parameter set at index \<open>i\<close>.
\<close>

theorem engine_c_step_index_alignment:
  assumes "length (params_per_system params) = length (systems state)"
      and "length (coupling_W params) = length (systems state)"
      and "list_all (\<lambda>row. length row = length (systems state)) (coupling_W params)"
  shows "\<exists>state'. engine_c_step state params shocks_F shocks_C = Inr state' \<and>
           length (systems state') = length (systems state) \<and>
           (\<forall>i<length (systems state).
              systems state' ! i =
                engine_a_step (systems state ! i) (params_per_system params ! i)
                  (shock_at shocks_F i +
                     endogenous_shocks_F (coupling_W params) (pressures_of (systems state))
                        (length (systems state)) ! i)
                  (shock_at shocks_C i))"
  using assms by (simp add: engine_c_step_ok endogenous_shocks_F_pressure)

theorem engine_c_step_index_alignment_witness:
  "\<exists>state'. engine_c_step \<lparr>systems = [scenario_state, loaded_state]\<rparr>
        \<lparr>params_per_system = [scenario_params, scenario_params],
         coupling_W = [[0, 1], [0, 0]]\<rparr> None None = Inr state' \<and>
      length (systems state') = 2 \<and>
      systems state' ! 0 = engine_a_step scenario_state scenario_params 5 0 \<and>
      systems state' ! 1 = engine_a_step loaded_state scenario_params 0 0"
proof -
  have e0: "endogenous_shocks_F [[0, 1], [0, 0]]
              (pressures_of [scenario_state, loaded_state]) 2 ! 0 = 5"
    by (simp add: endogenous_shocks_F_map coupling_total_def pressures_of_def pressure_def
        upt_rec numeral_2_eq_2)
  have e1: "endogenous_shocks_F [[0, 1], [0, 0]]
              (pressures_of [scenario_state, loaded_state]) 2 ! 1 = 0"
    by (simp add: endogenous_shocks_F_map coupling_total_def pressures_of_def pressure_def
        upt_rec numeral_2_eq_2)
  show ?thesis
    using engine_c_step_index_alignment
      [of "\<lparr>params_per_system = [scenario_params, scenario_params],
            coupling_W = [[0, 1], [0, 0]]\<rparr>"
          "\<lparr>systems = [scenario_state, loaded_state]\<rparr>" None None]
    using e0 e1 by (simp add: shock_at_def numeral_2_eq_2 less_Suc_eq all_conj_distrib)
qed

subsection \<open>Zero coupling\<close>

lemma engine_c_step_zero_coupling:
  assumes "length (params_per_system params) = length (systems state)"
      and "length (coupling_W params) = length (systems state)"
      and "list_all (\<lambda>row. length row = length (systems state)) (coupling_W params)"
      and "\<forall>i<length (systems state). \<forall>j<length (systems state). coupling_W params ! i ! j = 0"
  shows "engine_c_step state params shocks_F shocks_C =
     Inr \<lparr>systems = map (\<lambda>i. engine_a_step (systems state ! i) (params_per_system params ! i)
              (shock_at shocks_F i) (shock_at shocks_C i)) [0..<length (systems state)]\<rparr>"
  using assms by (simp add: engine_c_step_ok)

lemma run_engine_a_loop_append:
  "run_engine_a_loop p sF sC ts s (h @ h') = h @ run_engine_a_loop p sF sC ts s h'"
  by (induction ts arbitrary: s h') (simp_all add: Let_def)

lemma run_engine_c_loop_zero_coupling:
  assumes "length (params_per_system params) = N"
      and "length (coupling_W params) = N"
      and "list_all (\<lambda>row. length row = N) (coupling_W params)"
      and "\<forall>i<N. \<forall>j<N. coupling_W params ! i ! j = 0"
      and "length (systems state) = N"
  shows "\<exists>rest. run_engine_c_loop params ts state hist = Inr (hist @ rest) \<and>
           (\<forall>st\<in>set rest. length (systems st) = N) \<and>
           (\<forall>i<N. run_engine_a_loop (params_per_system params ! i) None None ts
                      (systems state ! i) [] = map (\<lambda>st. systems st ! i) rest)"
  using assms(5)
proof (induction ts arbitrary: state hist)
  case Nil
  then show ?case by simp
next
  case (Cons t ts)
  let ?state' = "\<lparr>systems = map (\<lambda>i. engine_a_step (systems state ! i)
        (params_per_system params ! i) (shock_at None i) (shock_at None i)) [0..<N]\<rparr>"
  have step: "engine_c_step state params None None = Inr ?state'"
    using engine_c_step_zero_coupling [of params state None None] assms(1-4) Cons.prems
    by simp
  have len: "length (systems ?state') = N" by simp
  from Cons.IH [OF len, of "hist @ [?state']"]
  obtain rest where r: "run_engine_c_loop params ts ?state' (hist @ [?state']) =
        Inr ((hist @ [?state']) @ rest)"
      "\<forall>st\<in>set rest. length (systems st) = N"
      "\<forall>i<N. run_engine_a_loop (params_per_system params ! i) None None ts
                 (systems ?state' ! i) [] = map (\<lambda>st. systems st ! i) rest"
    by blast
  have a: "\<forall>i<N. run_engine_a_loop (params_per_system params ! i) None None (t # ts)
                      (systems state ! i) [] = map (\<lambda>st. systems st ! i) (?state' # rest)"
  proof (intro allI impI)
    fix i assume i: "i < N"
    have "run_engine_a_loop (params_per_system params ! i) None None (t # ts)
            (systems state ! i) []
          = run_engine_a_loop (params_per_system params ! i) None None ts
              (systems ?state' ! i) ([systems ?state' ! i] @ [])"
      using i by (simp add: Let_def shock_at_def)
    also have "\<dots> = [systems ?state' ! i] @ map (\<lambda>st. systems st ! i) rest"
      using r(3) i by (simp only: run_engine_a_loop_append)
    finally show "run_engine_a_loop (params_per_system params ! i) None None (t # ts)
            (systems state ! i) [] = map (\<lambda>st. systems st ! i) (?state' # rest)"
      by simp
  qed
  show ?case
    apply (rule exI [of _ "?state' # rest"])
    using step r(1,2) a len by simp
qed

lemma run_engine_c_zero_coupling:
  assumes "length (params_per_system params) = length (systems state)"
      and "length (coupling_W params) = length (systems state)"
      and "list_all (\<lambda>row. length row = length (systems state)) (coupling_W params)"
      and "\<forall>i<length (systems state). \<forall>j<length (systems state). coupling_W params ! i ! j = 0"
  shows "\<exists>hist. run_engine_c state params steps = Inr hist \<and>
           (\<forall>st\<in>set hist. length (systems st) = length (systems state)) \<and>
           (\<forall>i<length (systems state).
              map (\<lambda>st. systems st ! i) hist =
                run_engine_a (systems state ! i) (params_per_system params ! i) steps None None)"
proof -
  from run_engine_c_loop_zero_coupling [OF assms refl, of "range_py steps" "[state]"]
  obtain rest where r: "run_engine_c_loop params (range_py steps) state [state] =
        Inr ([state] @ rest)"
      "\<forall>st\<in>set rest. length (systems st) = length (systems state)"
      "\<forall>i<length (systems state).
          run_engine_a_loop (params_per_system params ! i) None None (range_py steps)
            (systems state ! i) [] = map (\<lambda>st. systems st ! i) rest"
    by blast
  have "\<forall>i<length (systems state).
          map (\<lambda>st. systems st ! i) (state # rest) =
            run_engine_a (systems state ! i) (params_per_system params ! i) steps None None"
  proof (intro allI impI)
    fix i assume i: "i < length (systems state)"
    have "run_engine_a (systems state ! i) (params_per_system params ! i) steps None None
          = run_engine_a_loop (params_per_system params ! i) None None (range_py steps)
              (systems state ! i) ([systems state ! i] @ [])"
      by (simp add: run_engine_a_def)
    also have "\<dots> = [systems state ! i] @ map (\<lambda>st. systems st ! i) rest"
      using r(3) i by (simp only: run_engine_a_loop_append)
    finally show "map (\<lambda>st. systems st ! i) (state # rest) =
            run_engine_a (systems state ! i) (params_per_system params ! i) steps None None"
      by simp
  qed
  with r(1,2) show ?thesis
    by (intro exI [of _ "state # rest"]) (simp add: run_engine_c_def)
qed

lemma singleton_systems:
  assumes "\<forall>st\<in>set hist. length (systems st) = Suc 0"
  shows "hist = map (\<lambda>a. \<lparr>systems = [a]\<rparr>) (map (\<lambda>st. systems st ! 0) hist)"
  using assms
proof (induction hist)
  case Nil
  then show ?case by simp
next
  case (Cons st hist)
  then have "length (systems st) = Suc 0" by simp
  then obtain a where "systems st = [a]"
    by (cases "systems st") simp_all
  then have "st = \<lparr>systems = [systems st ! 0]\<rparr>" by (cases st) simp
  with Cons show ?case by simp
qed

lemma run_engine_c_single:
  "run_engine_c \<lparr>systems = [s]\<rparr> \<lparr>params_per_system = [p], coupling_W = [[0]]\<rparr> steps =
     Inr (map (\<lambda>a. \<lparr>systems = [a]\<rparr>) (run_engine_a s p steps None None))"
proof -
  from run_engine_c_zero_coupling
    [of "\<lparr>params_per_system = [p], coupling_W = [[0]]\<rparr>" "\<lparr>systems = [s]\<rparr>" steps]
  obtain hist where h:
    "run_engine_c \<lparr>systems = [s]\<rparr> \<lparr>params_per_system = [p], coupling_W = [[0]]\<rparr> steps = Inr hist"
    "\<forall>st\<in>set hist. length (systems st) = Suc 0"
    "map (\<lambda>st. systems st ! 0) hist = run_engine_a s p steps None None"
    by auto
  from singleton_systems [OF h(2)] h(3) h(1) show ?thesis by simp
qed

subsection \<open>Pressure\<close>

lemma pressure64_not_negative: "\<not> pressure64 F C < 0"
proof -
  have "\<not> a < 0" if "(0::pyfloat) < a" for a
    using that by (cases a) (simp_all add: zero_pyfloat_def)
  moreover have "\<not> (0::pyfloat) < 0" by (simp add: zero_pyfloat_def)
  ultimately show ?thesis
    by (simp add: pressure64_def py_max_def)
qed

text \<open>
  C6, as the code has it. Engines A, B and C compute the pressure of a system
  as \<open>max(0, F - C)\<close>, which is never negative (over binary64 too, where it is
  \<open>+\<infinity>\<close> when \<open>F - C\<close> overflows and \<open>0.0\<close> when \<open>F - C\<close> is NaN): every field
  of the Engine A step, of both layers of the Engine B step, and every
  endogenous shock of the Engine C step is computed from that clamped value.
  Kernel 2, Kernel 3 and the two-system contagion kernel compute the signed
  difference \<open>F - C\<close> instead, with no clamp.
\<close>

theorem pressure_clamped_in_engines_signed_in_kernels:
  "pressure F C = max 0 (F - C) \<and> 0 \<le> pressure F C \<and>
   \<not> pressure64 F64 C64 < 0 \<and>
   engine_a_step state params shock_F shock_C =
     \<lparr>st_F = st_F state
              + p_r params * max 0 (min 1 (st_T state + p_rho_trust params
                                  - p_lambda_trust params * max 0 (st_F state - st_C state)))
              + shock_F - max 0 (st_F state - st_C state),
      st_C = st_C state + p_kappa_capacity params * (st_F state - st_C state) + shock_C,
      st_T = max 0 (min 1 (st_T state + p_rho_trust params
                             - p_lambda_trust params * max 0 (st_F state - st_C state))),
      st_D = st_D state + p_alpha params * max 0 (st_F state - st_C state)
               - p_delta params * st_D state\<rparr> \<and>
   engine_b_step bstate bparams sFf sCf sFs sCs =
     \<lparr>bs_fast =
        \<lparr>st_F = st_F (bs_fast bstate)
                 + bl_r (bp_fast bparams) *
                     max 0 (min 1 (st_T (bs_fast bstate) + bl_rho_trust (bp_fast bparams)
                        - bl_lambda_trust (bp_fast bparams) *
                            max 0 (st_F (bs_fast bstate) - st_C (bs_fast bstate))))
                 + bp_gamma_fs bparams * st_T (bs_slow bstate)
                 + sFf - max 0 (st_F (bs_fast bstate) - st_C (bs_fast bstate)),
         st_C = st_C (bs_fast bstate)
                 + bl_kappa_capacity (bp_fast bparams) *
                     (st_F (bs_fast bstate) - st_C (bs_fast bstate)) + sCf,
         st_T = max 0 (min 1 (st_T (bs_fast bstate) + bl_rho_trust (bp_fast bparams)
                        - bl_lambda_trust (bp_fast bparams) *
                            max 0 (st_F (bs_fast bstate) - st_C (bs_fast bstate)))),
         st_D = st_D (bs_fast bstate)
                 + bl_alpha (bp_fast bparams) *
                     max 0 (st_F (bs_fast bstate) - st_C (bs_fast bstate))
                 - bl_delta (bp_fast bparams) * st_D (bs_fast bstate)\<rparr>,
      bs_slow =
        \<lparr>st_F = st_F (bs_slow bstate)
                 + bl_r (bp_slow bparams) *
                     max 0 (min 1 (st_T (bs_slow bstate) + bl_rho_trust (bp_slow bparams)
                        - bl_lambda_trust (bp_slow bparams) *
                            max 0 (st_F (bs_slow bstate) - st_C (bs_slow bstate))))
                 + sFs - max 0 (st_F (bs_slow bstate) - st_C (bs_slow bstate)),
         st_C = st_C (bs_slow bstate)
                 + bl_kappa_capacity (bp_slow bparams) *
                     (st_F (bs_slow bstate) - st_C (bs_slow bstate)) + sCs,
         st_T = max 0 (min 1 (st_T (bs_slow bstate) + bl_rho_trust (bp_slow bparams)
                        - bl_lambda_trust (bp_slow bparams) *
                            max 0 (st_F (bs_slow bstate) - st_C (bs_slow bstate)))),
         st_D = st_D (bs_slow bstate)
                 + (bl_alpha (bp_slow bparams) *
                      max 0 (st_F (bs_slow bstate) - st_C (bs_slow bstate))
                    + bl_beta_drift_from_other (bp_slow bparams) *
                      max 0 (st_F (bs_fast bstate) - st_C (bs_fast bstate))
                    - bl_delta (bp_slow bparams) * st_D (bs_slow bstate))\<rparr>\<rparr> \<and>
   pressures_of ss = map (\<lambda>s. max 0 (st_F s - st_C s)) ss \<and>
   (length (params_per_system cparams) = length (systems cstate) \<and>
    length (coupling_W cparams) = length (systems cstate) \<and>
    list_all (\<lambda>row. length row = length (systems cstate)) (coupling_W cparams) \<longrightarrow>
      engine_c_step cstate cparams shocks_F shocks_C =
        Inr \<lparr>systems = map (\<lambda>i. engine_a_step (systems cstate ! i)
                 (params_per_system cparams ! i)
                 (shock_at shocks_F i +
                    (\<Sum>j<length (systems cstate). coupling_W cparams ! i ! j *
                         max 0 (st_F (systems cstate ! j) - st_C (systems cstate ! j))))
                 (shock_at shocks_C i)) [0..<length (systems cstate)]\<rparr>) \<and>
   kernel2_step stock capacity inflow outflow k_capacity =
     (stock + inflow - outflow, capacity + k_capacity * (inflow - outflow - capacity),
      inflow - outflow, inflow - outflow - capacity) \<and>
   kernel3_step stock capacity drift inflow outflow k_capacity alpha delta =
     (stock + inflow - outflow, capacity + k_capacity * (inflow - outflow - capacity),
      (1 - delta) * drift + alpha * (inflow - outflow - capacity),
      inflow - outflow, inflow - outflow - capacity) \<and>
   two_system_step F1 C1 D1 F2 C2 D2 T k1 k2 alpha1 alpha2 delta1 delta2 r1 r2
        lambda_T coupling shock1 =
     (F1 + r1 * T - D1 - (F1 - C1) + shock1, C1 + k1 * (F1 - C1),
      (1 - delta1) * D1 + alpha1 * (F1 - C1),
      F2 + r2 * T - D2 - (F2 - C2), C2 + k2 * (F2 - C2),
      (1 - delta2) * D2 + alpha2 * (F2 - C2 + coupling * (F1 - C1)),
      max 0 (T - lambda_T * (\<bar>F1 - C1\<bar> + \<bar>F2 - C2\<bar>)),
      F1 - C1, F2 - C2)"
proof -
  have a: "engine_a_step state params shock_F shock_C =
     \<lparr>st_F = st_F state
              + p_r params * max 0 (min 1 (st_T state + p_rho_trust params
                                  - p_lambda_trust params * max 0 (st_F state - st_C state)))
              + shock_F - max 0 (st_F state - st_C state),
      st_C = st_C state + p_kappa_capacity params * (st_F state - st_C state) + shock_C,
      st_T = max 0 (min 1 (st_T state + p_rho_trust params
                             - p_lambda_trust params * max 0 (st_F state - st_C state))),
      st_D = st_D state + p_alpha params * max 0 (st_F state - st_C state)
               - p_delta params * st_D state\<rparr>"
    by (simp add: engine_a_step_def pressure_def Let_def)
  have b: "engine_b_step bstate bparams sFf sCf sFs sCs =
     \<lparr>bs_fast =
        \<lparr>st_F = st_F (bs_fast bstate)
                 + bl_r (bp_fast bparams) *
                     max 0 (min 1 (st_T (bs_fast bstate) + bl_rho_trust (bp_fast bparams)
                        - bl_lambda_trust (bp_fast bparams) *
                            max 0 (st_F (bs_fast bstate) - st_C (bs_fast bstate))))
                 + bp_gamma_fs bparams * st_T (bs_slow bstate)
                 + sFf - max 0 (st_F (bs_fast bstate) - st_C (bs_fast bstate)),
         st_C = st_C (bs_fast bstate)
                 + bl_kappa_capacity (bp_fast bparams) *
                     (st_F (bs_fast bstate) - st_C (bs_fast bstate)) + sCf,
         st_T = max 0 (min 1 (st_T (bs_fast bstate) + bl_rho_trust (bp_fast bparams)
                        - bl_lambda_trust (bp_fast bparams) *
                            max 0 (st_F (bs_fast bstate) - st_C (bs_fast bstate)))),
         st_D = st_D (bs_fast bstate)
                 + bl_alpha (bp_fast bparams) *
                     max 0 (st_F (bs_fast bstate) - st_C (bs_fast bstate))
                 - bl_delta (bp_fast bparams) * st_D (bs_fast bstate)\<rparr>,
      bs_slow =
        \<lparr>st_F = st_F (bs_slow bstate)
                 + bl_r (bp_slow bparams) *
                     max 0 (min 1 (st_T (bs_slow bstate) + bl_rho_trust (bp_slow bparams)
                        - bl_lambda_trust (bp_slow bparams) *
                            max 0 (st_F (bs_slow bstate) - st_C (bs_slow bstate))))
                 + sFs - max 0 (st_F (bs_slow bstate) - st_C (bs_slow bstate)),
         st_C = st_C (bs_slow bstate)
                 + bl_kappa_capacity (bp_slow bparams) *
                     (st_F (bs_slow bstate) - st_C (bs_slow bstate)) + sCs,
         st_T = max 0 (min 1 (st_T (bs_slow bstate) + bl_rho_trust (bp_slow bparams)
                        - bl_lambda_trust (bp_slow bparams) *
                            max 0 (st_F (bs_slow bstate) - st_C (bs_slow bstate)))),
         st_D = st_D (bs_slow bstate)
                 + (bl_alpha (bp_slow bparams) *
                      max 0 (st_F (bs_slow bstate) - st_C (bs_slow bstate))
                    + bl_beta_drift_from_other (bp_slow bparams) *
                      max 0 (st_F (bs_fast bstate) - st_C (bs_fast bstate))
                    - bl_delta (bp_slow bparams) * st_D (bs_slow bstate))\<rparr>\<rparr>"
    by (simp add: engine_b_step_def pressure_def Let_def)
  have c: "length (params_per_system cparams) = length (systems cstate) \<and>
    length (coupling_W cparams) = length (systems cstate) \<and>
    list_all (\<lambda>row. length row = length (systems cstate)) (coupling_W cparams) \<longrightarrow>
      engine_c_step cstate cparams shocks_F shocks_C =
        Inr \<lparr>systems = map (\<lambda>i. engine_a_step (systems cstate ! i)
                 (params_per_system cparams ! i)
                 (shock_at shocks_F i +
                    (\<Sum>j<length (systems cstate). coupling_W cparams ! i ! j *
                         max 0 (st_F (systems cstate ! j) - st_C (systems cstate ! j))))
                 (shock_at shocks_C i)) [0..<length (systems cstate)]\<rparr>"
    using engine_c_step_ok [of cparams cstate shocks_F shocks_C]
    by (simp add: pressure_def)
  have k: "kernel2_step stock capacity inflow outflow k_capacity =
     (stock + inflow - outflow, capacity + k_capacity * (inflow - outflow - capacity),
      inflow - outflow, inflow - outflow - capacity)"
    "kernel3_step stock capacity drift inflow outflow k_capacity alpha delta =
     (stock + inflow - outflow, capacity + k_capacity * (inflow - outflow - capacity),
      (1 - delta) * drift + alpha * (inflow - outflow - capacity),
      inflow - outflow, inflow - outflow - capacity)"
    "two_system_step F1 C1 D1 F2 C2 D2 T k1 k2 alpha1 alpha2 delta1 delta2 r1 r2
        lambda_T coupling shock1 =
     (F1 + r1 * T - D1 - (F1 - C1) + shock1, C1 + k1 * (F1 - C1),
      (1 - delta1) * D1 + alpha1 * (F1 - C1),
      F2 + r2 * T - D2 - (F2 - C2), C2 + k2 * (F2 - C2),
      (1 - delta2) * D2 + alpha2 * (F2 - C2 + coupling * (F1 - C1)),
      max 0 (T - lambda_T * (\<bar>F1 - C1\<bar> + \<bar>F2 - C2\<bar>)),
      F1 - C1, F2 - C2)"
    by (simp_all add: kernel2_step_def kernel3_step_def two_system_step_def Let_def)
  have p: "pressure F C = max 0 (F - C)" "0 \<le> pressure F C"
    "pressures_of ss = map (\<lambda>s. max 0 (st_F s - st_C s)) ss"
    by (simp_all add: pressure_def pressures_of_def)
  from p pressure64_not_negative [of F64 C64] a b c k show ?thesis
    by (intro conjI)
qed

theorem pressure_clamped_in_engines_signed_in_kernels_witness:
  "length [scenario_params, scenario_params] = length [scenario_state, loaded_state] \<and>
   list_all (\<lambda>row. length row = length [scenario_state, loaded_state]) [[0, 1], [0, 0::real]] \<and>
   engine_c_step \<lparr>systems = [scenario_state, loaded_state]\<rparr>
      \<lparr>params_per_system = [scenario_params, scenario_params],
       coupling_W = [[0, 1], [0, 0]]\<rparr> None None =
     Inr \<lparr>systems = [engine_a_step scenario_state scenario_params (max 0 (9 - 4)) 0,
                      engine_a_step loaded_state scenario_params 0 0]\<rparr> \<and>
   pressure 9 4 = 5 \<and> pressure 4 9 = 0"
proof -
  have two: "{..<2::nat} = {0, 1}" by auto
  note t = pressure_clamped_in_engines_signed_in_kernels
    [where cstate = "\<lparr>systems = [scenario_state, loaded_state]\<rparr>"
       and cparams = "\<lparr>params_per_system = [scenario_params, scenario_params],
          coupling_W = [[0, 1], [0, 0]]\<rparr>"
       and shocks_F = None and shocks_C = None]
  from t [where F = 9 and C = 4] have p1: "pressure 9 4 = 5" by simp
  from t [where F = 4 and C = 9] have p2: "pressure 4 9 = 0" by simp
  from t have "engine_c_step \<lparr>systems = [scenario_state, loaded_state]\<rparr>
      \<lparr>params_per_system = [scenario_params, scenario_params],
       coupling_W = [[0, 1], [0, 0]]\<rparr> None None =
     Inr \<lparr>systems = [engine_a_step scenario_state scenario_params (max 0 (9 - 4)) 0,
                      engine_a_step loaded_state scenario_params 0 0]\<rparr>"
    by (simp add: two shock_at_def upt_rec)
  with p1 p2 show ?thesis by simp
qed

text \<open>
  Kernel 2 at zero flow and capacity 1 reports the pressure \<open>-1\<close>: so not
  every variant clamps its pressure at zero.
\<close>

theorem kernel2_pressure_negative:
  "kernel2_step 0 1 0 0 0 = (0, 1, 0, - 1) \<and> \<not> (0::real) \<le> - 1"
  by (simp add: kernel2_step_def Let_def)

subsection \<open>Trust bounds\<close>

lemma engine_a_step_trust: "trust_ok (engine_a_step s p sF sC)"
  by (simp add: trust_ok_def engine_a_step_def Let_def)

lemma run_engine_a_loop_trust:
  "\<forall>s\<in>set hist. trust_ok s \<Longrightarrow>
   \<forall>s\<in>set (run_engine_a_loop p sF sC ts state hist). trust_ok s"
proof (induction ts arbitrary: state hist)
  case Nil
  then show ?case by simp
next
  case (Cons t ts)
  let ?state' = "engine_a_step state p (shock_at sF t) (shock_at sC t)"
  have "\<forall>s\<in>set (hist @ [?state']). trust_ok s"
    using Cons.prems engine_a_step_trust by simp
  from Cons.IH [OF this] show ?case by (simp add: Let_def)
qed

lemma run_engine_a_trust:
  "trust_ok state \<Longrightarrow> \<forall>s\<in>set (run_engine_a state p steps sF sC). trust_ok s"
  unfolding run_engine_a_def by (rule run_engine_a_loop_trust) simp

lemma engine_b_step_trust:
  "trust_ok (bs_fast (engine_b_step s p a b c d)) \<and> trust_ok (bs_slow (engine_b_step s p a b c d))"
  by (simp add: trust_ok_def engine_b_step_def Let_def)

lemma run_engine_b_loop_trust:
  "\<forall>s\<in>set hist. trust_ok (bs_fast s) \<and> trust_ok (bs_slow s) \<Longrightarrow>
   \<forall>s\<in>set (run_engine_b_loop p ts state hist). trust_ok (bs_fast s) \<and> trust_ok (bs_slow s)"
proof (induction ts arbitrary: state hist)
  case Nil
  then show ?case by simp
next
  case (Cons t ts)
  let ?state' = "engine_b_step state p 0 0 0 0"
  have "\<forall>s\<in>set (hist @ [?state']). trust_ok (bs_fast s) \<and> trust_ok (bs_slow s)"
    using Cons.prems engine_b_step_trust by simp
  from Cons.IH [OF this] show ?case by (simp add: Let_def)
qed

lemma run_engine_b_trust:
  "trust_ok (bs_fast state) \<Longrightarrow> trust_ok (bs_slow state) \<Longrightarrow>
   \<forall>s\<in>set (run_engine_b state p steps). trust_ok (bs_fast s) \<and> trust_ok (bs_slow s)"
  unfolding run_engine_b_def by (rule run_engine_b_loop_trust) simp

lemma engine_c_step_trust:
  assumes "engine_c_step state params sF sC = Inr state'"
  shows "\<forall>s\<in>set (systems state'). trust_ok s"
  using assms
  by (auto simp: engine_c_step_def Let_def engine_a_step_trust split: if_splits)

lemma run_engine_c_loop_trust:
  assumes "run_engine_c_loop params ts state hist = Inr hist'"
      and "\<forall>st\<in>set hist. \<forall>s\<in>set (systems st). trust_ok s"
  shows "\<forall>st\<in>set hist'. \<forall>s\<in>set (systems st). trust_ok s"
  using assms
proof (induction ts arbitrary: state hist)
  case Nil
  then show ?case by simp
next
  case (Cons t ts)
  from Cons.prems(1) obtain state' where
    st: "engine_c_step state params None None = Inr state'"
    and loop: "run_engine_c_loop params ts state' (hist @ [state']) = Inr hist'"
    by (auto split: sum.splits)
  have "\<forall>st\<in>set (hist @ [state']). \<forall>s\<in>set (systems st). trust_ok s"
    using Cons.prems(2) engine_c_step_trust [OF st] by simp
  from Cons.IH [OF loop this] show ?case .
qed

lemma run_engine_c_trust:
  assumes "run_engine_c state params steps = Inr hist"
      and "\<forall>s\<in>set (systems state). trust_ok s"
  shows "\<forall>st\<in>set hist. \<forall>s\<in>set (systems st). trust_ok s"
  using run_engine_c_loop_trust [of params "range_py steps" state "[state]" hist] assms
  by (simp add: run_engine_c_def)

lemma two_system_step_trust:
  assumes "0 \<le> lambda_T" and "T \<le> 1"
      and "two_system_step F1 C1 D1 F2 C2 D2 T k1 k2 alpha1 alpha2 delta1 delta2 r1 r2
             lambda_T coupling shock1 =
           (F1_next, C1_next, D1_next, F2_next, C2_next, D2_next, T_next, P1, P2)"
  shows "0 \<le> T_next \<and> T_next \<le> 1"
proof -
  have "0 \<le> lambda_T * (\<bar>F1 - C1\<bar> + \<bar>F2 - C2\<bar>)"
    using assms(1) by (intro mult_nonneg_nonneg) simp_all
  moreover have "T_next = max 0 (T - lambda_T * (\<bar>F1 - C1\<bar> + \<bar>F2 - C2\<bar>))"
    using assms(3) by (auto simp add: two_system_step_def Let_def)
  ultimately show ?thesis
    using assms(2) by simp
qed

lemma simulate_two_system_loop_trust:
  assumes "0 \<le> tp_lambda_T ps" and "T \<le> 1"
      and "\<forall>s\<in>set states. 0 \<le> ts_T s \<and> ts_T s \<le> 1"
  shows "\<forall>s\<in>set (simulate_two_system_loop ps ts F1 C1 D1 F2 C2 D2 T states).
           0 \<le> ts_T s \<and> ts_T s \<le> 1"
  using assms(2,3)
proof (induction ts arbitrary: F1 C1 D1 F2 C2 D2 T states)
  case Nil
  then show ?case by simp
next
  case (Cons t ts)
  let ?shock = "if int t < tp_bubble_steps ps then tp_bubble_shock ps else 0"
  obtain F1' C1' D1' F2' C2' D2' T' P1 P2 where
    st: "two_system_step F1 C1 D1 F2 C2 D2 T (tp_k1 ps) (tp_k2 ps) (tp_alpha1 ps) (tp_alpha2 ps)
           (tp_delta1 ps) (tp_delta2 ps) (tp_r1 ps) (tp_r2 ps) (tp_lambda_T ps) (tp_coupling ps)
           ?shock = (F1', C1', D1', F2', C2', D2', T', P1, P2)"
    by (metis prod_cases3)
  from two_system_step_trust [OF assms(1) Cons.prems(1) st]
  have T': "0 \<le> T'" "T' \<le> 1" by simp_all
  let ?rec = "\<lparr>ts_t = int t, ts_F1 = F1', ts_C1 = C1', ts_P1 = P1, ts_D1 = D1',
               ts_F2 = F2', ts_C2 = C2', ts_P2 = P2, ts_D2 = D2', ts_T = T'\<rparr>"
  have "\<forall>s\<in>set (states @ [?rec]). 0 \<le> ts_T s \<and> ts_T s \<le> 1"
    using Cons.prems(2) T' by simp
  from Cons.IH [OF T'(2) this, of F1' C1' D1' F2' C2' D2']
  show ?case using st by (simp add: Let_def)
qed

lemma simulate_two_system_kernel_trust:
  assumes "0 \<le> tp_lambda_T ps" and "T0 \<le> 1"
  shows "\<forall>s\<in>set (simulate_two_system_kernel T_steps F1_0 C1_0 D1_0 F2_0 C2_0 D2_0 T0 ps).
           0 \<le> ts_T s \<and> ts_T s \<le> 1"
  unfolding simulate_two_system_kernel_def
  using assms by (intro simulate_two_system_loop_trust) simp_all

text \<open>
  C4, as the code has it. In a run of Engine A, B or C whose initial trust
  values lie in \<open>[0, 1]\<close>, every trust value of the history lies in \<open>[0, 1]\<close>,
  for any real parameters and shocks: the update is
  \<open>max(0, min(1, T + rho_trust - lambda_trust * P))\<close>. The two-system contagion
  kernel clamps its shared trust from below only, and its recorded trust
  stays in \<open>[0, 1]\<close> when moreover \<open>lambda_T \<ge> 0\<close>.
\<close>

theorem trust_stays_in_unit_interval:
  "(trust_ok state \<longrightarrow>
      (\<forall>s\<in>set (run_engine_a state params steps shocks_F shocks_C). trust_ok s)) \<and>
   (trust_ok (bs_fast bstate) \<and> trust_ok (bs_slow bstate) \<longrightarrow>
      (\<forall>s\<in>set (run_engine_b bstate bparams steps).
          trust_ok (bs_fast s) \<and> trust_ok (bs_slow s))) \<and>
   ((\<forall>s\<in>set (systems cstate). trust_ok s) \<and> run_engine_c cstate cparams steps = Inr hist \<longrightarrow>
      (\<forall>st\<in>set hist. \<forall>s\<in>set (systems st). trust_ok s)) \<and>
   (0 \<le> tp_lambda_T ps \<and> 0 \<le> T0 \<and> T0 \<le> 1 \<longrightarrow>
      (\<forall>s\<in>set (simulate_two_system_kernel steps F1_0 C1_0 D1_0 F2_0 C2_0 D2_0 T0 ps).
          0 \<le> ts_T s \<and> ts_T s \<le> 1)) \<and>
   st_T (engine_a_step state params shock_F shock_C) =
     max 0 (min 1 (st_T state + p_rho_trust params
                     - p_lambda_trust params * pressure (st_F state) (st_C state)))"
proof (intro conjI impI)
  assume "trust_ok state"
  then show "\<forall>s\<in>set (run_engine_a state params steps shocks_F shocks_C). trust_ok s"
    by (rule run_engine_a_trust)
next
  assume "trust_ok (bs_fast bstate) \<and> trust_ok (bs_slow bstate)"
  then show "\<forall>s\<in>set (run_engine_b bstate bparams steps).
          trust_ok (bs_fast s) \<and> trust_ok (bs_slow s)"
    by (intro run_engine_b_trust) simp_all
next
  assume "(\<forall>s\<in>set (systems cstate). trust_ok s) \<and> run_engine_c cstate cparams steps = Inr hist"
  then show "\<forall>st\<in>set hist. \<forall>s\<in>set (systems st). trust_ok s"
    using run_engine_c_trust [of cstate cparams steps hist] by blast
next
  assume "0 \<le> tp_lambda_T ps \<and> 0 \<le> T0 \<and> T0 \<le> 1"
  then show "\<forall>s\<in>set (simulate_two_system_kernel steps F1_0 C1_0 D1_0 F2_0 C2_0 D2_0 T0 ps).
          0 \<le> ts_T s \<and> ts_T s \<le> 1"
    by (intro simulate_two_system_kernel_trust) simp_all
next
  show "st_T (engine_a_step state params shock_F shock_C) =
     max 0 (min 1 (st_T state + p_rho_trust params
                     - p_lambda_trust params * pressure (st_F state) (st_C state)))"
    by (simp add: engine_a_step_def Let_def)
qed

theorem trust_stays_in_unit_interval_witness:
  "trust_ok scenario_state \<and>
   trust_ok (run_engine_a scenario_state scenario_params 1 None None ! 1) \<and>
   trust_ok (bs_fast two_layer_state) \<and> trust_ok (bs_slow two_layer_state) \<and>
   trust_ok (bs_fast (run_engine_b two_layer_state two_layer_params 1 ! 1)) \<and>
   trust_ok (bs_slow (run_engine_b two_layer_state two_layer_params 1 ! 1)) \<and>
   run_engine_c \<lparr>systems = [scenario_state]\<rparr>
       \<lparr>params_per_system = [scenario_params], coupling_W = [[0]]\<rparr> 1 =
     Inr [\<lparr>systems = [scenario_state]\<rparr>,
          \<lparr>systems = [engine_a_step scenario_state scenario_params 0 0]\<rparr>] \<and>
   trust_ok (engine_a_step scenario_state scenario_params 0 0) \<and>
   (0::real) \<le> tp_lambda_T default_two_system_params \<and> (0::real) \<le> 1 \<and> (1::real) \<le> 1 \<and>
   0 \<le> ts_T (simulate_two_system_kernel 1 3 1 0 1 2 0 1 default_two_system_params ! 0) \<and>
   ts_T (simulate_two_system_kernel 1 3 1 0 1 2 0 1 default_two_system_params ! 0) \<le> 1"
proof -
  let ?cs = "\<lparr>systems = [scenario_state]\<rparr>"
  let ?cp = "\<lparr>params_per_system = [scenario_params], coupling_W = [[0]]\<rparr>"
  let ?step = "engine_a_step scenario_state scenario_params 0 0"
  have ra: "run_engine_a scenario_state scenario_params 1 None None = [scenario_state, ?step]"
    by (simp add: run_engine_a_def range_py_def shock_at_def Let_def)
  have rb: "run_engine_b two_layer_state two_layer_params 1 =
      [two_layer_state, engine_b_step two_layer_state two_layer_params 0 0 0 0]"
    by (simp add: run_engine_b_def range_py_def Let_def)
  have rc: "run_engine_c ?cs ?cp 1 = Inr [?cs, \<lparr>systems = [?step]\<rparr>]"
    by (simp only: run_engine_c_single ra list.map)
  have rt: "length (simulate_two_system_kernel 1 3 1 0 1 2 0 1 default_two_system_params) = 1"
    by (simp add: simulate_two_system_kernel_def range_py_def two_system_step_def Let_def)
  have t0: "trust_ok scenario_state" "trust_ok loaded_state"
    by (simp_all add: trust_ok_def)
  note t = trust_stays_in_unit_interval
    [of scenario_state scenario_params 1 None None two_layer_state two_layer_params
        ?cs ?cp "[?cs, \<lparr>systems = [?step]\<rparr>]" default_two_system_params 1 3 1 0 1 2 0 0 0]
  from t t0 ra have a: "trust_ok (run_engine_a scenario_state scenario_params 1 None None ! 1)"
    by simp
  from t t0 rb have b:
    "trust_ok (bs_fast (run_engine_b two_layer_state two_layer_params 1 ! 1))"
    "trust_ok (bs_slow (run_engine_b two_layer_state two_layer_params 1 ! 1))"
    by simp_all
  from t t0 rc have c: "trust_ok ?step"
    by simp
  from t have "\<forall>s\<in>set (simulate_two_system_kernel 1 3 1 0 1 2 0 1 default_two_system_params).
          0 \<le> ts_T s \<and> ts_T s \<le> 1"
    by simp
  with rt have e:
    "0 \<le> ts_T (simulate_two_system_kernel 1 3 1 0 1 2 0 1 default_two_system_params ! 0)"
    "ts_T (simulate_two_system_kernel 1 3 1 0 1 2 0 1 default_two_system_params ! 0) \<le> 1"
    by simp_all
  show ?thesis
    using t0 a b rc c e by simp
qed

text \<open>
  With \<open>lambda_T = -1\<close> the two-system kernel takes the shared trust from 1
  to 2 in one step.
\<close>

theorem two_system_trust_exceeds_one:
  "(0::real) \<le> 1 \<and> (1::real) \<le> 1 \<and>
   simulate_two_system_kernel 1 1 0 0 0 0 0 1
       (default_two_system_params\<lparr>tp_lambda_T := - 1\<rparr>) =
     [\<lparr>ts_t = 0, ts_F1 = 1.3, ts_C1 = 0.2, ts_P1 = 1, ts_D1 = 0.4,
       ts_F2 = 0.5, ts_C2 = 0, ts_P2 = 0, ts_D2 = 0.06, ts_T = 2\<rparr>] \<and>
   \<not> (2::real) \<le> 1"
  by (simp add: simulate_two_system_kernel_def range_py_def two_system_step_def Let_def)

text \<open>
  C10, as the code has it. In the two-system contagion kernel, when
  \<open>lambda_T \<ge> 0\<close> and the shared trust \<open>T\<close> given to the step is not negative,
  the shared trust returned by the step satisfies \<open>0 \<le> T_next \<le> T\<close>.
\<close>

theorem two_system_trust_nonincreasing:
  assumes "0 \<le> lambda_T" and "0 \<le> T"
      and "two_system_step F1 C1 D1 F2 C2 D2 T k1 k2 alpha1 alpha2 delta1 delta2 r1 r2
             lambda_T coupling shock1 =
           (F1_next, C1_next, D1_next, F2_next, C2_next, D2_next, T_next, P1, P2)"
  shows "0 \<le> T_next \<and> T_next \<le> T"
proof -
  have "0 \<le> lambda_T * (\<bar>F1 - C1\<bar> + \<bar>F2 - C2\<bar>)"
    using assms(1) by (intro mult_nonneg_nonneg) simp_all
  moreover have "T_next = max 0 (T - lambda_T * (\<bar>F1 - C1\<bar> + \<bar>F2 - C2\<bar>))"
    using assms(3) by (auto simp add: two_system_step_def Let_def)
  ultimately show ?thesis
    using assms(2) by simp
qed

theorem two_system_trust_nonincreasing_witness:
  "(0::real) \<le> 1 / 10 \<and> (0::real) \<le> 1 \<and>
   two_system_step 3 1 0 1 2 0 1 0.2 0.05 0.4 0.2 0.1 0.05 0.8 0.5 0.1 0.3 0.5 =
     (2.3, 1.4, 0.8, 2.5, 1.95, - 0.08, 0.7, 2, - 1) \<and>
   (0::real) \<le> 0.7 \<and> (0.7::real) \<le> 1"
proof -
  have e: "two_system_step 3 1 0 1 2 0 1 0.2 0.05 0.4 0.2 0.1 0.05 0.8 0.5 0.1 0.3 0.5 =
     (2.3, 1.4, 0.8, 2.5, 1.95, - 0.08, 0.7, 2, - 1)"
    by (simp add: two_system_step_def Let_def)
  have l: "(0::real) \<le> 0.1" and t: "(0::real) \<le> 1" by simp_all
  from two_system_trust_nonincreasing [OF l t e] e show ?thesis by simp
qed

text \<open>
  From a negative shared trust the lower clamp raises the trust to 0, so the
  bound \<open>T_next \<le> T\<close> needs \<open>T \<ge> 0\<close>.
\<close>

theorem two_system_trust_rises_from_negative:
  "(0::real) \<le> 0 \<and>
   two_system_step 0 0 0 0 0 0 (- 1) 0 0 0 0 0 0 0 0 0 0 0 = (0, 0, 0, 0, 0, 0, 0, 0, 0) \<and>
   \<not> (0::real) \<le> - 1"
  by (simp add: two_system_step_def Let_def)

subsection \<open>Histories\<close>

lemma run_engine_a_loop_history:
  "\<exists>rest. run_engine_a_loop p sF sC ts s hist = hist @ rest \<and> length rest = length ts \<and>
     (\<forall>m<length ts. rest ! m =
        engine_a_step ((s # rest) ! m) p (shock_at sF (ts ! m)) (shock_at sC (ts ! m)))"
proof (induction ts arbitrary: s hist)
  case Nil
  then show ?case by simp
next
  case (Cons t ts)
  let ?s' = "engine_a_step s p (shock_at sF t) (shock_at sC t)"
  from Cons.IH [of ?s' "hist @ [?s']"] obtain rest where
    r: "run_engine_a_loop p sF sC ts ?s' (hist @ [?s']) = (hist @ [?s']) @ rest"
       "length rest = length ts"
       "\<forall>m<length ts. rest ! m =
          engine_a_step ((?s' # rest) ! m) p (shock_at sF (ts ! m)) (shock_at sC (ts ! m))"
    by blast
  have "\<forall>m<length (t # ts). (?s' # rest) ! m =
          engine_a_step ((s # ?s' # rest) ! m) p
            (shock_at sF ((t # ts) ! m)) (shock_at sC ((t # ts) ! m))"
  proof (intro allI impI)
    fix m assume "m < length (t # ts)"
    then show "(?s' # rest) ! m =
          engine_a_step ((s # ?s' # rest) ! m) p
            (shock_at sF ((t # ts) ! m)) (shock_at sC ((t # ts) ! m))"
      using r(3) by (cases m) simp_all
  qed
  with r(1,2) show ?case
    by (intro exI [of _ "?s' # rest"]) (simp add: Let_def)
qed

lemma run_engine_a_history:
  assumes "0 \<le> steps"
  shows "int (length (run_engine_a state params steps sF sC)) = steps + 1 \<and>
         run_engine_a state params steps sF sC ! 0 = state \<and>
         (\<forall>t<nat steps. run_engine_a state params steps sF sC ! Suc t =
            engine_a_step (run_engine_a state params steps sF sC ! t) params
              (shock_at sF t) (shock_at sC t))"
proof -
  from run_engine_a_loop_history [of params sF sC "range_py steps" state "[state]"]
  obtain rest where
    r: "run_engine_a state params steps sF sC = state # rest"
       "length rest = nat steps"
       "\<forall>m<nat steps. rest ! m =
          engine_a_step ((state # rest) ! m) params
            (shock_at sF (range_py steps ! m)) (shock_at sC (range_py steps ! m))"
    by (auto simp: run_engine_a_def range_py_def)
  have "\<forall>m<nat steps. range_py steps ! m = m"
    by (simp add: range_py_def)
  with r assms show ?thesis by simp
qed

lemma run_engine_b_loop_history:
  "\<exists>rest. run_engine_b_loop p ts s hist = hist @ rest \<and> length rest = length ts \<and>
     (\<forall>m<length ts. rest ! m = engine_b_step ((s # rest) ! m) p 0 0 0 0)"
proof (induction ts arbitrary: s hist)
  case Nil
  then show ?case by simp
next
  case (Cons t ts)
  let ?s' = "engine_b_step s p 0 0 0 0"
  from Cons.IH [of ?s' "hist @ [?s']"] obtain rest where
    r: "run_engine_b_loop p ts ?s' (hist @ [?s']) = (hist @ [?s']) @ rest"
       "length rest = length ts"
       "\<forall>m<length ts. rest ! m = engine_b_step ((?s' # rest) ! m) p 0 0 0 0"
    by blast
  have "\<forall>m<length (t # ts). (?s' # rest) ! m = engine_b_step ((s # ?s' # rest) ! m) p 0 0 0 0"
  proof (intro allI impI)
    fix m assume "m < length (t # ts)"
    then show "(?s' # rest) ! m = engine_b_step ((s # ?s' # rest) ! m) p 0 0 0 0"
      using r(3) by (cases m) simp_all
  qed
  with r(1,2) show ?case
    by (intro exI [of _ "?s' # rest"]) (simp add: Let_def)
qed

lemma run_engine_b_history:
  assumes "0 \<le> steps"
  shows "int (length (run_engine_b state params steps)) = steps + 1 \<and>
         run_engine_b state params steps ! 0 = state \<and>
         (\<forall>t<nat steps. run_engine_b state params steps ! Suc t =
            engine_b_step (run_engine_b state params steps ! t) params 0 0 0 0)"
proof -
  from run_engine_b_loop_history [of params "range_py steps" state "[state]"]
  obtain rest where
    r: "run_engine_b state params steps = state # rest"
       "length rest = nat steps"
       "\<forall>m<nat steps. rest ! m = engine_b_step ((state # rest) ! m) params 0 0 0 0"
    by (auto simp: run_engine_b_def range_py_def)
  with assms show ?thesis by simp
qed

lemma run_engine_c_loop_history:
  assumes "length (params_per_system params) = N"
      and "length (coupling_W params) = N"
      and "list_all (\<lambda>row. length row = N) (coupling_W params)"
      and "length (systems s) = N"
  shows "\<exists>rest. run_engine_c_loop params ts s hist = Inr (hist @ rest) \<and>
           length rest = length ts \<and>
           (\<forall>m<length ts. engine_c_step ((s # rest) ! m) params None None = Inr (rest ! m))"
  using assms(4)
proof (induction ts arbitrary: s hist)
  case Nil
  then show ?case by simp
next
  case (Cons t ts)
  from engine_c_step_ok [of params s None None] assms(1-3) Cons.prems
  obtain s' where st: "engine_c_step s params None None = Inr s'"
    and len: "length (systems s') = N"
    by simp
  from Cons.IH [OF len, of "hist @ [s']"] obtain rest where
    r: "run_engine_c_loop params ts s' (hist @ [s']) = Inr ((hist @ [s']) @ rest)"
       "length rest = length ts"
       "\<forall>m<length ts. engine_c_step ((s' # rest) ! m) params None None = Inr (rest ! m)"
    by blast
  have "\<forall>m<length (t # ts).
          engine_c_step ((s # s' # rest) ! m) params None None = Inr ((s' # rest) ! m)"
  proof (intro allI impI)
    fix m assume "m < length (t # ts)"
    then show "engine_c_step ((s # s' # rest) ! m) params None None = Inr ((s' # rest) ! m)"
      using r(3) st by (cases m) simp_all
  qed
  with r(1,2) st show ?case
    by (intro exI [of _ "s' # rest"]) simp
qed

lemma run_engine_c_history:
  assumes "0 \<le> steps"
      and "length (params_per_system params) = length (systems state)"
      and "length (coupling_W params) = length (systems state)"
      and "list_all (\<lambda>row. length row = length (systems state)) (coupling_W params)"
  shows "\<exists>hist. run_engine_c state params steps = Inr hist \<and>
           int (length hist) = steps + 1 \<and> hist ! 0 = state \<and>
           (\<forall>t<nat steps. engine_c_step (hist ! t) params None None = Inr (hist ! Suc t))"
proof -
  from run_engine_c_loop_history [OF assms(2-4) refl, of "range_py steps" "[state]"]
  obtain rest where
    r: "run_engine_c state params steps = Inr (state # rest)"
       "length rest = nat steps"
       "\<forall>m<nat steps. engine_c_step ((state # rest) ! m) params None None = Inr (rest ! m)"
    by (auto simp: run_engine_c_def range_py_def)
  with assms(1) show ?thesis
    by (intro exI [of _ "state # rest"]) simp
qed

lemma simulate_two_system_loop_history:
  "\<exists>rest. simulate_two_system_loop ps ts F1 C1 D1 F2 C2 D2 T states = states @ rest \<and>
     length rest = length ts \<and>
     (ts \<noteq> [] \<longrightarrow> rest ! 0 = two_system_record ps (ts ! 0) F1 C1 D1 F2 C2 D2 T) \<and>
     (\<forall>m. Suc m < length ts \<longrightarrow>
        rest ! Suc m = two_system_record ps (ts ! Suc m)
          (ts_F1 (rest ! m)) (ts_C1 (rest ! m)) (ts_D1 (rest ! m))
          (ts_F2 (rest ! m)) (ts_C2 (rest ! m)) (ts_D2 (rest ! m)) (ts_T (rest ! m)))"
proof (induction ts arbitrary: F1 C1 D1 F2 C2 D2 T states)
  case Nil
  then show ?case by simp
next
  case (Cons t ts)
  let ?shock = "if int t < tp_bubble_steps ps then tp_bubble_shock ps else 0"
  obtain F1' C1' D1' F2' C2' D2' T' P1 P2 where
    st: "two_system_step F1 C1 D1 F2 C2 D2 T (tp_k1 ps) (tp_k2 ps) (tp_alpha1 ps) (tp_alpha2 ps)
           (tp_delta1 ps) (tp_delta2 ps) (tp_r1 ps) (tp_r2 ps) (tp_lambda_T ps) (tp_coupling ps)
           ?shock = (F1', C1', D1', F2', C2', D2', T', P1, P2)"
    by (metis prod_cases3)
  let ?rec = "\<lparr>ts_t = int t, ts_F1 = F1', ts_C1 = C1', ts_P1 = P1, ts_D1 = D1',
               ts_F2 = F2', ts_C2 = C2', ts_P2 = P2, ts_D2 = D2', ts_T = T'\<rparr>"
  have rec: "two_system_record ps t F1 C1 D1 F2 C2 D2 T = ?rec"
    using st by (simp add: two_system_record_def)
  from Cons.IH [of F1' C1' D1' F2' C2' D2' T' "states @ [?rec]"] obtain rest where
    r: "simulate_two_system_loop ps ts F1' C1' D1' F2' C2' D2' T' (states @ [?rec]) =
          (states @ [?rec]) @ rest"
       "length rest = length ts"
       "ts \<noteq> [] \<longrightarrow> rest ! 0 = two_system_record ps (ts ! 0) F1' C1' D1' F2' C2' D2' T'"
       "\<forall>m. Suc m < length ts \<longrightarrow>
          rest ! Suc m = two_system_record ps (ts ! Suc m)
            (ts_F1 (rest ! m)) (ts_C1 (rest ! m)) (ts_D1 (rest ! m))
            (ts_F2 (rest ! m)) (ts_C2 (rest ! m)) (ts_D2 (rest ! m)) (ts_T (rest ! m))"
    by blast
  have loop: "simulate_two_system_loop ps (t # ts) F1 C1 D1 F2 C2 D2 T states =
          states @ (?rec # rest)"
    using st r(1) by (simp add: Let_def)
  have step: "\<forall>m. Suc m < length (t # ts) \<longrightarrow>
          (?rec # rest) ! Suc m = two_system_record ps ((t # ts) ! Suc m)
            (ts_F1 ((?rec # rest) ! m)) (ts_C1 ((?rec # rest) ! m)) (ts_D1 ((?rec # rest) ! m))
            (ts_F2 ((?rec # rest) ! m)) (ts_C2 ((?rec # rest) ! m)) (ts_D2 ((?rec # rest) ! m))
            (ts_T ((?rec # rest) ! m))"
  proof (intro allI impI)
    fix m assume m: "Suc m < length (t # ts)"
    show "(?rec # rest) ! Suc m = two_system_record ps ((t # ts) ! Suc m)
            (ts_F1 ((?rec # rest) ! m)) (ts_C1 ((?rec # rest) ! m)) (ts_D1 ((?rec # rest) ! m))
            (ts_F2 ((?rec # rest) ! m)) (ts_C2 ((?rec # rest) ! m)) (ts_D2 ((?rec # rest) ! m))
            (ts_T ((?rec # rest) ! m))"
    proof (cases m)
      case 0
      with m have "ts \<noteq> []" by auto
      with r(3) 0 show ?thesis by simp
    next
      case (Suc k)
      with m have "Suc k < length ts" by simp
      with r(4) Suc show ?thesis by simp
    qed
  qed
  show ?case
    using loop r(2) rec step
    by (intro exI [of _ "?rec # rest"]) simp
qed

lemma simulate_two_system_kernel_history:
  assumes "0 \<le> T_steps"
  shows "int (length (simulate_two_system_kernel T_steps F1_0 C1_0 D1_0 F2_0 C2_0 D2_0 T0 ps))
           = T_steps \<and>
         (0 < T_steps \<longrightarrow>
            simulate_two_system_kernel T_steps F1_0 C1_0 D1_0 F2_0 C2_0 D2_0 T0 ps ! 0 =
              two_system_record ps 0 F1_0 C1_0 D1_0 F2_0 C2_0 D2_0 T0) \<and>
         (\<forall>t. Suc t < nat T_steps \<longrightarrow>
            simulate_two_system_kernel T_steps F1_0 C1_0 D1_0 F2_0 C2_0 D2_0 T0 ps ! Suc t =
              (let prev = simulate_two_system_kernel T_steps F1_0 C1_0 D1_0 F2_0 C2_0 D2_0 T0 ps ! t
               in two_system_record ps (Suc t) (ts_F1 prev) (ts_C1 prev) (ts_D1 prev)
                    (ts_F2 prev) (ts_C2 prev) (ts_D2 prev) (ts_T prev)))"
proof -
  from simulate_two_system_loop_history
    [of ps "range_py T_steps" F1_0 C1_0 D1_0 F2_0 C2_0 D2_0 T0 "[]"]
  obtain rest where
    r: "simulate_two_system_kernel T_steps F1_0 C1_0 D1_0 F2_0 C2_0 D2_0 T0 ps = rest"
       "length rest = nat T_steps"
       "range_py T_steps \<noteq> [] \<longrightarrow>
          rest ! 0 = two_system_record ps (range_py T_steps ! 0) F1_0 C1_0 D1_0 F2_0 C2_0 D2_0 T0"
       "\<forall>m. Suc m < nat T_steps \<longrightarrow>
          rest ! Suc m = two_system_record ps (range_py T_steps ! Suc m)
            (ts_F1 (rest ! m)) (ts_C1 (rest ! m)) (ts_D1 (rest ! m))
            (ts_F2 (rest ! m)) (ts_C2 (rest ! m)) (ts_D2 (rest ! m)) (ts_T (rest ! m))"
    by (auto simp: simulate_two_system_kernel_def range_py_def)
  have idx: "\<forall>m<nat T_steps. range_py T_steps ! m = m"
    by (simp add: range_py_def)
  have ne: "0 < T_steps \<Longrightarrow> range_py T_steps \<noteq> []"
    by (simp add: range_py_def)
  show ?thesis
    unfolding r(1) using r(2-4) idx ne assms by (simp add: Let_def)
qed

text \<open>
  C5, as the code has it. For a step count \<open>steps \<ge> 0\<close>, the drivers of
  Engine A, Engine B and Engine C (the latter on inputs that pass the
  dimension checks) return \<open>steps + 1\<close> states: index 0 holds the initial
  state and index \<open>t + 1\<close> holds the transition of the state at index \<open>t\<close>.
  The driver of the two-system contagion kernel returns \<open>steps\<close> states and
  does not record the initial condition: index 0 holds the state after the
  first transition and index \<open>t + 1\<close> the transition from the values at
  index \<open>t\<close>.
\<close>

theorem history_length_and_indexing:
  assumes "0 \<le> steps"
  shows "(int (length (run_engine_a state params steps shocks_F shocks_C)) = steps + 1 \<and>
          run_engine_a state params steps shocks_F shocks_C ! 0 = state \<and>
          (\<forall>t<nat steps. run_engine_a state params steps shocks_F shocks_C ! Suc t =
             engine_a_step (run_engine_a state params steps shocks_F shocks_C ! t) params
               (shock_at shocks_F t) (shock_at shocks_C t))) \<and>
         (int (length (run_engine_b bstate bparams steps)) = steps + 1 \<and>
          run_engine_b bstate bparams steps ! 0 = bstate \<and>
          (\<forall>t<nat steps. run_engine_b bstate bparams steps ! Suc t =
             engine_b_step (run_engine_b bstate bparams steps ! t) bparams 0 0 0 0)) \<and>
         (length (params_per_system cparams) = length (systems cstate) \<and>
          length (coupling_W cparams) = length (systems cstate) \<and>
          list_all (\<lambda>row. length row = length (systems cstate)) (coupling_W cparams) \<longrightarrow>
            (\<exists>hist. run_engine_c cstate cparams steps = Inr hist \<and>
               int (length hist) = steps + 1 \<and> hist ! 0 = cstate \<and>
               (\<forall>t<nat steps.
                  engine_c_step (hist ! t) cparams None None = Inr (hist ! Suc t)))) \<and>
         (int (length (simulate_two_system_kernel steps F1_0 C1_0 D1_0 F2_0 C2_0 D2_0 T0 ps))
            = steps \<and>
          (0 < steps \<longrightarrow>
             simulate_two_system_kernel steps F1_0 C1_0 D1_0 F2_0 C2_0 D2_0 T0 ps ! 0 =
               two_system_record ps 0 F1_0 C1_0 D1_0 F2_0 C2_0 D2_0 T0) \<and>
          (\<forall>t. Suc t < nat steps \<longrightarrow>
             simulate_two_system_kernel steps F1_0 C1_0 D1_0 F2_0 C2_0 D2_0 T0 ps ! Suc t =
               (let prev = simulate_two_system_kernel steps F1_0 C1_0 D1_0 F2_0 C2_0 D2_0 T0 ps ! t
                in two_system_record ps (Suc t) (ts_F1 prev) (ts_C1 prev) (ts_D1 prev)
                     (ts_F2 prev) (ts_C2 prev) (ts_D2 prev) (ts_T prev))))"
  using run_engine_a_history [OF assms, of state params shocks_F shocks_C]
        run_engine_b_history [OF assms, of bstate bparams]
        run_engine_c_history [OF assms, of cparams cstate]
        simulate_two_system_kernel_history [OF assms, of F1_0 C1_0 D1_0 F2_0 C2_0 D2_0 T0 ps]
  by blast

theorem history_length_and_indexing_witness:
  "(0::int) \<le> 1 \<and>
   int (length (run_engine_a scenario_state scenario_params 1 None None)) = 2 \<and>
   run_engine_a scenario_state scenario_params 1 None None ! 0 = scenario_state \<and>
   run_engine_a scenario_state scenario_params 1 None None ! 1 =
     engine_a_step scenario_state scenario_params 0 0 \<and>
   int (length (run_engine_b two_layer_state two_layer_params 1)) = 2 \<and>
   run_engine_b two_layer_state two_layer_params 1 ! 0 = two_layer_state \<and>
   run_engine_b two_layer_state two_layer_params 1 ! 1 =
     engine_b_step two_layer_state two_layer_params 0 0 0 0 \<and>
   (\<exists>hist. run_engine_c \<lparr>systems = [scenario_state, loaded_state]\<rparr>
        \<lparr>params_per_system = [scenario_params, scenario_params],
         coupling_W = [[0, 1], [0, 0]]\<rparr> 1 = Inr hist \<and>
      int (length hist) = 2 \<and> hist ! 0 = \<lparr>systems = [scenario_state, loaded_state]\<rparr> \<and>
      engine_c_step \<lparr>systems = [scenario_state, loaded_state]\<rparr>
        \<lparr>params_per_system = [scenario_params, scenario_params],
         coupling_W = [[0, 1], [0, 0]]\<rparr> None None = Inr (hist ! 1)) \<and>
   int (length (simulate_two_system_kernel 1 3 1 0 1 2 0 1 default_two_system_params)) = 1 \<and>
   simulate_two_system_kernel 1 3 1 0 1 2 0 1 default_two_system_params ! 0 =
     two_system_record default_two_system_params 0 3 1 0 1 2 0 1"
proof -
  have h: "(0::int) \<le> 1" by simp
  have d: "length (params_per_system \<lparr>params_per_system = [scenario_params, scenario_params],
              coupling_W = [[0, 1], [0, 0]]\<rparr>) = length (systems \<lparr>systems = [scenario_state, loaded_state]\<rparr>) \<and>
           length (coupling_W \<lparr>params_per_system = [scenario_params, scenario_params],
              coupling_W = [[0, 1], [0, 0]]\<rparr>) = length (systems \<lparr>systems = [scenario_state, loaded_state]\<rparr>) \<and>
           list_all (\<lambda>row. length row = length (systems \<lparr>systems = [scenario_state, loaded_state]\<rparr>))
             (coupling_W \<lparr>params_per_system = [scenario_params, scenario_params],
              coupling_W = [[0, 1], [0, 0]]\<rparr>)"
    by simp
  note t = history_length_and_indexing [OF h, of scenario_state scenario_params None None
      two_layer_state two_layer_params
      "\<lparr>params_per_system = [scenario_params, scenario_params], coupling_W = [[0, 1], [0, 0]]\<rparr>"
      "\<lparr>systems = [scenario_state, loaded_state]\<rparr>" 3 1 0 1 2 0 1 default_two_system_params]
  from t have a: "int (length (run_engine_a scenario_state scenario_params 1 None None)) = 2"
    "run_engine_a scenario_state scenario_params 1 None None ! 0 = scenario_state"
    "run_engine_a scenario_state scenario_params 1 None None ! Suc 0 =
       engine_a_step (run_engine_a scenario_state scenario_params 1 None None ! 0)
         scenario_params (shock_at None 0) (shock_at None 0)"
    by simp_all
  from t have b: "int (length (run_engine_b two_layer_state two_layer_params 1)) = 2"
    "run_engine_b two_layer_state two_layer_params 1 ! 0 = two_layer_state"
    "run_engine_b two_layer_state two_layer_params 1 ! Suc 0 =
       engine_b_step (run_engine_b two_layer_state two_layer_params 1 ! 0)
         two_layer_params 0 0 0 0"
    by simp_all
  from t d obtain hist where c:
    "run_engine_c \<lparr>systems = [scenario_state, loaded_state]\<rparr>
        \<lparr>params_per_system = [scenario_params, scenario_params],
         coupling_W = [[0, 1], [0, 0]]\<rparr> 1 = Inr hist"
    "int (length hist) = 2" "hist ! 0 = \<lparr>systems = [scenario_state, loaded_state]\<rparr>"
    "engine_c_step (hist ! 0) \<lparr>params_per_system = [scenario_params, scenario_params],
         coupling_W = [[0, 1], [0, 0]]\<rparr> None None = Inr (hist ! Suc 0)"
    by auto
  from t have e:
    "int (length (simulate_two_system_kernel 1 3 1 0 1 2 0 1 default_two_system_params)) = 1"
    "simulate_two_system_kernel 1 3 1 0 1 2 0 1 default_two_system_params ! 0 =
       two_system_record default_two_system_params 0 3 1 0 1 2 0 1"
    by simp_all
  show ?thesis
    using a b c e by (simp add: shock_at_def)
qed

text \<open>
  One step of the two-system kernel from \<open>F1 = 3\<close>, \<open>T = 1\<close> returns a single
  state, which is the state after that step (\<open>F1 = 2.3\<close>, \<open>T = 0.7\<close>): the
  history has length \<open>steps\<close>, not \<open>steps + 1\<close>.
\<close>

theorem two_system_history_has_no_initial_state:
  "simulate_two_system_kernel 1 3 1 0 1 2 0 1 default_two_system_params =
     [\<lparr>ts_t = 0, ts_F1 = 2.3, ts_C1 = 1.4, ts_P1 = 2, ts_D1 = 0.8,
       ts_F2 = 2.5, ts_C2 = 1.95, ts_P2 = - 1, ts_D2 = - 0.08, ts_T = 0.7\<rparr>]"
  by (simp add: simulate_two_system_kernel_def range_py_def two_system_step_def Let_def)

subsection \<open>Negative step counts\<close>

lemma range_py_negative: "steps \<le> 0 \<Longrightarrow> range_py steps = []"
  by (simp add: range_py_def)

text \<open>
  C7, as the code has it. No driver checks its step count. With a negative
  step count the loop body never runs and no error is raised: the drivers of
  Engine A, B and C return the one-element history holding the initial state
  (Engine C even when its dimension checks would fail, since they sit in the
  step), and the driver of the two-system kernel returns the empty list.
\<close>

theorem negative_steps_return_without_error:
  assumes "steps < 0"
  shows "run_engine_a state params steps shocks_F shocks_C = [state] \<and>
         run_engine_b bstate bparams steps = [bstate] \<and>
         run_engine_c cstate cparams steps = Inr [cstate] \<and>
         simulate_two_system_kernel steps F1_0 C1_0 D1_0 F2_0 C2_0 D2_0 T0 ps = []"
  using assms
  by (simp add: run_engine_a_def run_engine_b_def run_engine_c_def
      simulate_two_system_kernel_def range_py_negative)

theorem negative_steps_return_without_error_witness:
  "(- 1 :: int) < 0 \<and>
   run_engine_a scenario_state scenario_params (- 1) None None = [scenario_state] \<and>
   run_engine_b two_layer_state two_layer_params (- 1) = [two_layer_state] \<and>
   run_engine_c \<lparr>systems = [scenario_state]\<rparr>
      \<lparr>params_per_system = [], coupling_W = []\<rparr> (- 1) = Inr [\<lparr>systems = [scenario_state]\<rparr>] \<and>
   simulate_two_system_kernel (- 1) 3 1 0 1 2 0 1 default_two_system_params = []"
  using negative_steps_return_without_error
    [of "- 1" scenario_state scenario_params None None two_layer_state two_layer_params
        "\<lparr>systems = [scenario_state]\<rparr>" "\<lparr>params_per_system = [], coupling_W = []\<rparr>"
        3 1 0 1 2 0 1 default_two_system_params]
  by simp

text \<open>The Engine C driver at \<open>steps = -1\<close> on a well-formed input returns a history.\<close>

theorem run_engine_c_negative_steps_no_error:
  "run_engine_c \<lparr>systems = [scenario_state]\<rparr>
      \<lparr>params_per_system = [scenario_params], coupling_W = [[0]]\<rparr> (- 1)
   = Inr [\<lparr>systems = [scenario_state]\<rparr>]"
  by (simp add: run_engine_c_def range_py_def)

section \<open>Properties over binary64\<close>

subsection \<open>Evaluating the rounding\<close>

lemma binade_up_numeral:
  "binade_up (numeral k) x e = (if 2 \<le> x then binade_up (pred_numeral k) (x / 2) (e + 1) else e)"
  by (simp add: numeral_eq_Suc)

lemma binade_down_numeral:
  "binade_down (numeral k) x e = (if x < 1 then binade_down (pred_numeral k) (2 * x) (e - 1) else e)"
  by (simp add: numeral_eq_Suc)

lemmas eval64 = round64_def exponent64_def round_half_even_def Let_def
  binade_up_numeral binade_down_numeral
  power_int_minus lit_def zero_pyfloat_def one_pyfloat_def minus_pyfloat_def
  py_max_def py_min_def pressure64_def

lemma binade_up_large: "2 ^ n \<le> x \<Longrightarrow> binade_up n x e = e + int n"
proof (induction n arbitrary: x e)
  case 0
  then show ?case by simp
next
  case (Suc n)
  have "(1::real) \<le> 2 ^ n" by simp
  then have "(2::real) \<le> 2 ^ Suc n" by simp
  with Suc.prems have x: "2 \<le> x" by linarith
  from Suc.prems have "2 ^ n \<le> x / 2" by simp
  from Suc.IH [OF this, of "e + 1"] x show ?case by simp
qed

lemma exponent64_large:
  assumes "2 ^ 1023 \<le> \<bar>x\<bar>"
  shows "exponent64 x = 1023"
proof -
  have "(1::real) \<le> 2 ^ 1023" by (rule one_le_power) simp
  with assms have "1 \<le> \<bar>x\<bar>" by linarith
  moreover have "binade_up 1023 \<bar>x\<bar> 0 = 0 + int 1023"
    using assms by (rule binade_up_large)
  ultimately show ?thesis
    unfolding exponent64_def by simp
qed

lemma round_half_even_of_int: "round_half_even (of_int n) = n"
  by (simp add: round_half_even_def)


lemma round64_scaled:
  assumes "x \<noteq> 0" and "exponent64 x = e" and "x = of_int n * 2 powi (e - 52)"
  shows "round64 x =
           (if 2 ^ 1024 \<le> x then PosInf else if x \<le> - (2 ^ 1024) then NegInf else Fin x)"
proof -
  have nz: "(2::real) powi (e - 52) \<noteq> 0" by simp
  have "x / 2 powi (e - 52) = of_int n"
    using assms(3) nz by simp
  then have "of_int (round_half_even (x / 2 powi (exponent64 x - 52))) * 2 powi (exponent64 x - 52) = x"
    using assms(2,3) by (simp add: round_half_even_of_int)
  then show ?thesis
    using assms(1) by (simp add: round64_def Let_def)
qed

lemma round64_overflow: "round64 (2 ^ 1024) = PosInf"
proof -
  have le: "(2::real) ^ 1023 \<le> \<bar>2 ^ 1024\<bar>"
    by simp
  have e: "exponent64 (2 ^ 1024) = 1023"
    using le by (rule exponent64_large)
  have x: "(2::real) ^ 1024 = of_int (2 ^ 53) * 2 powi (1023 - 52)"
    by simp
  have nz: "(2::real) ^ 1024 \<noteq> 0" by simp
  from round64_scaled [OF nz e x] show ?thesis by simp
qed

lemma round64_largest_binade: "round64 (2 ^ 1023) = Fin (2 ^ 1023)"
proof -
  have le: "(2::real) ^ 1023 \<le> \<bar>2 ^ 1023\<bar>"
    by simp
  have e: "exponent64 (2 ^ 1023) = 1023"
    using le by (rule exponent64_large)
  have x: "(2::real) ^ 1023 = of_int (2 ^ 52) * 2 powi (1023 - 52)"
    by simp
  have nz: "(2::real) ^ 1023 \<noteq> 0" by simp
  from round64_scaled [OF nz e x] show ?thesis by simp
qed

lemma overflowing_pressure: "pressure64 (Fin (2 ^ 1023)) (Fin (- (2 ^ 1023))) = PosInf"
proof -
  have "(2::real) ^ 1023 + 2 ^ 1023 = 2 ^ 1024" by simp
  then have "Fin (2 ^ 1023) - Fin (- (2 ^ 1023)) = round64 (2 ^ 1024)"
    by (simp add: minus_pyfloat_def)
  then have "Fin (2 ^ 1023) - Fin (- (2 ^ 1023)) = PosInf"
    by (simp only: round64_overflow)
  then show ?thesis
    by (simp only: pressure64_def py_max_def zero_pyfloat_def less_pyfloat.simps if_True)
qed

lemma round64_zero: "round64 0 = Fin 0"
  by (simp add: round64_def)

lemma exact64_zero: "exact64 0"
  by (simp add: exact64_def round64_zero)

lemma add_zero64: "representable a \<Longrightarrow> a + 0 = a"
  by (cases a) (simp_all add: zero_pyfloat_def representable_def exact64_def)

lemma zero_times_Fin: "0 * Fin p = 0"
  by (simp add: zero_pyfloat_def round64_zero)

lemma zero_plus_zero64: "(0::pyfloat) + 0 = 0"
  by (simp add: zero_pyfloat_def round64_zero)

lemma round64_five: "round64 5 = Fin 5"
  by (simp add: eval64)

lemma round64_two: "round64 2 = Fin 2"
  by (simp add: eval64)

lemma round64_one: "round64 1 = Fin 1"
  by (simp add: eval64)

lemma pressure_scenario64: "pressure64 (lit 10) (lit 8) = Fin 2"
  by (simp add: eval64)

lemma pressure_loaded64: "pressure64 (lit 9) (lit 4) = Fin 5"
  by (simp add: eval64)

subsection \<open>The coupling step of Engine C over binary64\<close>

lemma pressures_of64_nth:
  "j < length ss \<Longrightarrow> pressures_of64 ss ! j = pressure64 (f_F (ss ! j)) (f_C (ss ! j))"
  by (simp add: pressures_of64_def)

lemma endogenous_shocks_F64_map:
  "endogenous_shocks_F64 W pressures N = map (coupling_total64 W pressures N) [0..<N]"
  unfolding endogenous_shocks_F64_def by (simp add: foldl_update_upt)

lemma coupling_total64_pressure:
  "coupling_total64 W (pressures_of64 ss) (length ss) i =
     foldl (\<lambda>total j. total + W ! i ! j * pressure64 (f_F (ss ! j)) (f_C (ss ! j))) 0
       [0..<length ss]"
  unfolding coupling_total64_def
  by (rule foldl_cong) (simp_all add: pressures_of64_nth)

lemma endogenous_shocks_F64_nth:
  "i < length ss \<Longrightarrow>
   endogenous_shocks_F64 W (pressures_of64 ss) (length ss) ! i =
     foldl (\<lambda>total j. total + W ! i ! j * pressure64 (f_F (ss ! j)) (f_C (ss ! j))) 0
       [0..<length ss]"
  by (simp add: endogenous_shocks_F64_map coupling_total64_pressure)

lemma engine_c_step64_ok:
  assumes "length (params_per_system64 params) = length (systems64 state)"
      and "length (coupling_W64 params) = length (systems64 state)"
      and "list_all (\<lambda>row. length row = length (systems64 state)) (coupling_W64 params)"
  shows "engine_c_step64 state params shocks_F shocks_C =
     Inr \<lparr>systems64 = map (\<lambda>i. engine_a_step64 (systems64 state ! i)
              (params_per_system64 params ! i)
              (shock_at64 shocks_F i +
                 foldl (\<lambda>total j. total + coupling_W64 params ! i ! j *
                          pressure64 (f_F (systems64 state ! j)) (f_C (systems64 state ! j))) 0
                   [0..<length (systems64 state)])
              (shock_at64 shocks_C i)) [0..<length (systems64 state)]\<rparr>"
  using assms unfolding engine_c_step64_def
  by (simp add: Let_def endogenous_shocks_F64_nth)

lemma foldl_exact_sum:
  assumes "\<forall>j<n. W j = Fin (w j) \<and> P j = Fin (p j) \<and> exact64 (w j * p j) \<and>
                 exact64 (\<Sum>k<Suc j. w k * p k)"
  shows "foldl (\<lambda>total j. total + W j * P j) 0 [0..<n] = Fin (\<Sum>j<n. w j * p j)"
  using assms
proof (induction n)
  case 0
  then show ?case by (simp add: zero_pyfloat_def)
next
  case (Suc n)
  then have IH: "foldl (\<lambda>total j. total + W j * P j) 0 [0..<n] = Fin (\<Sum>j<n. w j * p j)"
    by simp
  from Suc.prems have n: "W n = Fin (w n)" "P n = Fin (p n)" "exact64 (w n * p n)"
    "exact64 (\<Sum>k<Suc n. w k * p k)"
    by simp_all
  have "foldl (\<lambda>total j. total + W j * P j) 0 [0..<Suc n]
        = Fin (\<Sum>j<n. w j * p j) + Fin (w n) * Fin (p n)"
    using IH n(1,2) by simp
  also have "Fin (w n) * Fin (p n) = Fin (w n * p n)"
    using n(3) by (simp add: exact64_def)
  also have "Fin (\<Sum>j<n. w j * p j) + Fin (w n * p n) = Fin (\<Sum>j<Suc n. w j * p j)"
    using n(4) by (simp add: exact64_def)
  finally show ?case .
qed

lemma scenario_B_row0:
  assumes "pressure64 (f_F s1) (f_C s1) = Fin 5" and "pressure64 (f_F s0) (f_C s0) = Fin p0"
  shows "foldl (\<lambda>total j. total + [[0, 1], [0, 0]] ! 0 ! j *
            pressure64 (f_F ([s0, s1] ! j)) (f_C ([s0, s1] ! j))) 0 [0..<length [s0, s1]] = Fin 5"
proof -
  have up: "[0..<length [s0, s1]] = [0, Suc 0]" by (simp add: upt_rec)
  show ?thesis
    unfolding up using assms
    by (simp add: zero_pyfloat_def one_pyfloat_def round64_zero round64_five)
qed

lemma scenario_B_row1:
  assumes "pressure64 (f_F s1) (f_C s1) = Fin 5" and "pressure64 (f_F s0) (f_C s0) = Fin p0"
  shows "foldl (\<lambda>total j. total + [[0, 1], [0, 0]] ! 1 ! j *
            pressure64 (f_F ([s0, s1] ! j)) (f_C ([s0, s1] ! j))) 0 [0..<length [s0, s1]] = 0"
proof -
  have up: "[0..<length [s0, s1]] = [0, Suc 0]" by (simp add: upt_rec)
  show ?thesis
    unfolding up using assms
    by (simp add: zero_pyfloat_def round64_zero)
qed

text \<open>
  C1, as the code has it. When the dimension checks pass, one Engine C step
  gives system \<open>i\<close> the endogenous flow shock obtained by the accumulation
  \<open>total := total + W[i][j] * pressure(F_j, C_j)\<close> for \<open>j = 0, ..., N-1\<close> from
  \<open>0.0\<close>, in binary64, every pressure being read from the state the step was
  given, and adds it to the exogenous shock of system \<open>i\<close> in its Engine A
  transition. That value is the exact sum \<open>\<Sum>j. W[i][j] * pressure(F_j, C_j)\<close>
  when the weights and pressures are finite and no product and no partial sum
  is rounded. With two systems, \<open>W = [[0, 1], [0, 0]]\<close> and system 1 at
  pressure 5, the endogenous shock of system 0 is 5.0 whenever the pressure of
  system 0 is finite.
\<close>

theorem engine_c_step64_endogenous_shock:
  "(length (params_per_system64 params) = length (systems64 state) \<and>
    length (coupling_W64 params) = length (systems64 state) \<and>
    list_all (\<lambda>row. length row = length (systems64 state)) (coupling_W64 params) \<longrightarrow>
      (\<forall>i<length (systems64 state).
         endogenous_shocks_F64 (coupling_W64 params) (pressures_of64 (systems64 state))
             (length (systems64 state)) ! i
         = foldl (\<lambda>total j. total + coupling_W64 params ! i ! j *
                    pressure64 (f_F (systems64 state ! j)) (f_C (systems64 state ! j))) 0
             [0..<length (systems64 state)]) \<and>
      engine_c_step64 state params shocks_F shocks_C =
        Inr \<lparr>systems64 = map (\<lambda>i. engine_a_step64 (systems64 state ! i)
                (params_per_system64 params ! i)
                (shock_at64 shocks_F i +
                   foldl (\<lambda>total j. total + coupling_W64 params ! i ! j *
                            pressure64 (f_F (systems64 state ! j)) (f_C (systems64 state ! j))) 0
                     [0..<length (systems64 state)])
                (shock_at64 shocks_C i)) [0..<length (systems64 state)]\<rparr>) \<and>
   (i < length (systems64 state) \<and>
    (\<forall>j<length (systems64 state).
       coupling_W64 params ! i ! j = Fin (w j) \<and>
       pressure64 (f_F (systems64 state ! j)) (f_C (systems64 state ! j)) = Fin (p j) \<and>
       exact64 (w j * p j) \<and> exact64 (\<Sum>k<Suc j. w k * p k)) \<longrightarrow>
      endogenous_shocks_F64 (coupling_W64 params) (pressures_of64 (systems64 state))
          (length (systems64 state)) ! i
      = Fin (\<Sum>j<length (systems64 state). w j * p j)) \<and>
   (pressure64 (f_F s1) (f_C s1) = Fin 5 \<and> pressure64 (f_F s0) (f_C s0) = Fin p0 \<longrightarrow>
      endogenous_shocks_F64 [[0, 1], [0, 0]] (pressures_of64 [s0, s1]) 2 ! 0 = Fin 5 \<and>
      engine_c_step64 \<lparr>systems64 = [s0, s1]\<rparr>
          \<lparr>params_per_system64 = [q0, q1], coupling_W64 = [[0, 1], [0, 0]]\<rparr>
          shocks_F shocks_C =
        Inr \<lparr>systems64 =
               [engine_a_step64 s0 q0 (shock_at64 shocks_F 0 + Fin 5) (shock_at64 shocks_C 0),
                engine_a_step64 s1 q1 (shock_at64 shocks_F 1 + 0) (shock_at64 shocks_C 1)]\<rparr>)"
proof (intro conjI impI)
  assume d: "length (params_per_system64 params) = length (systems64 state) \<and>
    length (coupling_W64 params) = length (systems64 state) \<and>
    list_all (\<lambda>row. length row = length (systems64 state)) (coupling_W64 params)"
  show "\<forall>i<length (systems64 state).
         endogenous_shocks_F64 (coupling_W64 params) (pressures_of64 (systems64 state))
             (length (systems64 state)) ! i
         = foldl (\<lambda>total j. total + coupling_W64 params ! i ! j *
                    pressure64 (f_F (systems64 state ! j)) (f_C (systems64 state ! j))) 0
             [0..<length (systems64 state)]"
    by (simp add: endogenous_shocks_F64_nth)
  show "engine_c_step64 state params shocks_F shocks_C =
        Inr \<lparr>systems64 = map (\<lambda>i. engine_a_step64 (systems64 state ! i)
                (params_per_system64 params ! i)
                (shock_at64 shocks_F i +
                   foldl (\<lambda>total j. total + coupling_W64 params ! i ! j *
                            pressure64 (f_F (systems64 state ! j)) (f_C (systems64 state ! j))) 0
                     [0..<length (systems64 state)])
                (shock_at64 shocks_C i)) [0..<length (systems64 state)]\<rparr>"
    using d by (intro engine_c_step64_ok) simp_all
next
  assume a: "i < length (systems64 state) \<and>
    (\<forall>j<length (systems64 state).
       coupling_W64 params ! i ! j = Fin (w j) \<and>
       pressure64 (f_F (systems64 state ! j)) (f_C (systems64 state ! j)) = Fin (p j) \<and>
       exact64 (w j * p j) \<and> exact64 (\<Sum>k<Suc j. w k * p k))"
  then have "foldl (\<lambda>total j. total + coupling_W64 params ! i ! j *
                    pressure64 (f_F (systems64 state ! j)) (f_C (systems64 state ! j))) 0
             [0..<length (systems64 state)] = Fin (\<Sum>j<length (systems64 state). w j * p j)"
    by (intro foldl_exact_sum) simp
  with a show "endogenous_shocks_F64 (coupling_W64 params) (pressures_of64 (systems64 state))
          (length (systems64 state)) ! i
      = Fin (\<Sum>j<length (systems64 state). w j * p j)"
    by (simp add: endogenous_shocks_F64_nth)
next
  assume p: "pressure64 (f_F s1) (f_C s1) = Fin 5 \<and> pressure64 (f_F s0) (f_C s0) = Fin p0"
  have "endogenous_shocks_F64 [[0, 1], [0, 0]] (pressures_of64 [s0, s1]) (length [s0, s1]) ! 0
          = Fin 5"
    using p by (subst endogenous_shocks_F64_nth) (simp_all only: scenario_B_row0, simp)
  then show "endogenous_shocks_F64 [[0, 1], [0, 0]] (pressures_of64 [s0, s1]) 2 ! 0 = Fin 5"
    by (simp add: numeral_2_eq_2)
  have up: "[0..<length [s0, s1]] = [0, Suc 0]" by (simp add: upt_rec)
  have r0: "foldl (\<lambda>total j. total + [[0, 1], [0, 0]] ! 0 ! j *
            pressure64 (f_F ([s0, s1] ! j)) (f_C ([s0, s1] ! j))) 0 [0..<length [s0, s1]] = Fin 5"
    using p by (intro scenario_B_row0) simp_all
  have r1: "foldl (\<lambda>total j. total + [[0, 1], [0, 0]] ! 1 ! j *
            pressure64 (f_F ([s0, s1] ! j)) (f_C ([s0, s1] ! j))) 0 [0..<length [s0, s1]] = 0"
    using p by (intro scenario_B_row1) simp_all
  have "engine_c_step64 \<lparr>systems64 = [s0, s1]\<rparr>
          \<lparr>params_per_system64 = [q0, q1], coupling_W64 = [[0, 1], [0, 0]]\<rparr>
          shocks_F shocks_C =
        Inr \<lparr>systems64 = map (\<lambda>i. engine_a_step64 ([s0, s1] ! i) ([q0, q1] ! i)
                (shock_at64 shocks_F i +
                   foldl (\<lambda>total j. total + [[0, 1], [0, 0]] ! i ! j *
                            pressure64 (f_F ([s0, s1] ! j)) (f_C ([s0, s1] ! j))) 0
                     [0..<length [s0, s1]])
                (shock_at64 shocks_C i)) [0..<length [s0, s1]]\<rparr>"
    by (subst engine_c_step64_ok) simp_all
  also have "map (\<lambda>i. engine_a_step64 ([s0, s1] ! i) ([q0, q1] ! i)
                (shock_at64 shocks_F i +
                   foldl (\<lambda>total j. total + [[0, 1], [0, 0]] ! i ! j *
                            pressure64 (f_F ([s0, s1] ! j)) (f_C ([s0, s1] ! j))) 0
                     [0..<length [s0, s1]])
                (shock_at64 shocks_C i)) [0..<length [s0, s1]]
           = [engine_a_step64 s0 q0 (shock_at64 shocks_F 0 + Fin 5) (shock_at64 shocks_C 0),
              engine_a_step64 s1 q1 (shock_at64 shocks_F 1 + 0) (shock_at64 shocks_C 1)]"
    using r0 r1 by (simp add: upt_rec)
  finally show "engine_c_step64 \<lparr>systems64 = [s0, s1]\<rparr>
          \<lparr>params_per_system64 = [q0, q1], coupling_W64 = [[0, 1], [0, 0]]\<rparr>
          shocks_F shocks_C =
        Inr \<lparr>systems64 =
               [engine_a_step64 s0 q0 (shock_at64 shocks_F 0 + Fin 5) (shock_at64 shocks_C 0),
                engine_a_step64 s1 q1 (shock_at64 shocks_F 1 + 0) (shock_at64 shocks_C 1)]\<rparr>" .
qed

theorem engine_c_step64_endogenous_shock_witness:
  "length [scenario_params64, scenario_params64] = length [scenario_state64, loaded_state64] \<and>
   list_all (\<lambda>row. length row = length [scenario_state64, loaded_state64])
     [[0, 1], [0, 0::pyfloat]] \<and>
   pressure64 (f_F loaded_state64) (f_C loaded_state64) = Fin 5 \<and>
   pressure64 (f_F scenario_state64) (f_C scenario_state64) = Fin 2 \<and>
   exact64 0 \<and> exact64 5 \<and>
   endogenous_shocks_F64 [[0, 1], [0, 0]]
     (pressures_of64 [scenario_state64, loaded_state64]) 2 ! 0 = Fin 5 \<and>
   engine_c_step64 \<lparr>systems64 = [scenario_state64, loaded_state64]\<rparr>
      \<lparr>params_per_system64 = [scenario_params64, scenario_params64],
       coupling_W64 = [[0, 1], [0, 0]]\<rparr> None None =
     Inr \<lparr>systems64 = [engine_a_step64 scenario_state64 scenario_params64 (0 + Fin 5) 0,
                        engine_a_step64 loaded_state64 scenario_params64 (0 + 0) 0]\<rparr>"
proof -
  let ?st = "\<lparr>systems64 = [scenario_state64, loaded_state64]\<rparr>"
  let ?ps = "\<lparr>params_per_system64 = [scenario_params64, scenario_params64],
              coupling_W64 = [[0, 1], [0, 0]]\<rparr>"
  let ?w = "\<lambda>j. [0, 1::real] ! j"
  let ?p = "\<lambda>j. [2, 5::real] ! j"
  have e0: "exact64 0" by (rule exact64_zero)
  have e5: "exact64 5" by (simp add: exact64_def round64_five)
  have pl: "pressure64 (f_F loaded_state64) (f_C loaded_state64) = Fin 5"
    by (simp add: pressure_loaded64)
  have psc: "pressure64 (f_F scenario_state64) (f_C scenario_state64) = Fin 2"
    by (simp add: pressure_scenario64)
  have hyp: "\<forall>j<length (systems64 ?st).
       coupling_W64 ?ps ! 0 ! j = Fin (?w j) \<and>
       pressure64 (f_F (systems64 ?st ! j)) (f_C (systems64 ?st ! j)) = Fin (?p j) \<and>
       exact64 (?w j * ?p j) \<and> exact64 (\<Sum>k<Suc j. ?w k * ?p k)"
    using e0 e5 pl psc
    by (simp add: less_Suc_eq all_conj_distrib zero_pyfloat_def one_pyfloat_def
        lessThan_Suc)
  note t = engine_c_step64_endogenous_shock
    [of ?ps ?st None None 0 ?w ?p loaded_state64 scenario_state64 2
        scenario_params64 scenario_params64]
  from t hyp have "endogenous_shocks_F64 (coupling_W64 ?ps) (pressures_of64 (systems64 ?st))
          (length (systems64 ?st)) ! 0 = Fin (\<Sum>j<length (systems64 ?st). ?w j * ?p j)"
    by simp
  then have b: "endogenous_shocks_F64 [[0, 1], [0, 0]]
     (pressures_of64 [scenario_state64, loaded_state64]) 2 ! 0 = Fin 5"
    by (simp add: lessThan_Suc numeral_2_eq_2)
  from t pl psc have c: "engine_c_step64 ?st ?ps None None =
     Inr \<lparr>systems64 =
            [engine_a_step64 scenario_state64 scenario_params64 (shock_at64 None 0 + Fin 5)
               (shock_at64 None 0),
             engine_a_step64 loaded_state64 scenario_params64 (shock_at64 None 1 + 0)
               (shock_at64 None 1)]\<rparr>"
    by blast
  show ?thesis
    using e0 e5 pl psc b c by (simp add: shock_at64_def)
qed

text \<open>
  When the pressure of system 0 overflows to \<open>+\<infinity>\<close>, its weight \<open>0.0\<close> gives
  \<open>0.0 * \<infinity> = NaN\<close> and the endogenous shock of system 0 is NaN, not 5.0.
\<close>

theorem scenario_B_shock_is_nan:
  "pressure64 (f_F loaded_state64) (f_C loaded_state64) = Fin 5 \<and>
   pressure64 (f_F overflowing_state64) (f_C overflowing_state64) = PosInf \<and>
   endogenous_shocks_F64 [[0, 1], [0, 0]]
     (pressures_of64 [overflowing_state64, loaded_state64]) 2 ! 0 = NaN"
proof -
  have up: "[0..<2] = [0, Suc 0]" by (simp add: upt_rec)
  have "endogenous_shocks_F64 [[0, 1], [0, 0]]
     (pressures_of64 [overflowing_state64, loaded_state64]) 2 ! 0 = NaN"
    using overflowing_pressure pressure_loaded64
    by (simp add: endogenous_shocks_F64_map coupling_total64_def pressures_of64_def up
        zero_pyfloat_def one_pyfloat_def round64_five)
  then show ?thesis
    using overflowing_pressure pressure_loaded64 by simp
qed

subsection \<open>The single-system scenario over binary64\<close>

lemma scenario_drift64: "lit 0 + lit 0.2 * Fin 2 - lit 0.1 * lit 0 = lit 0.4"
  by (simp add: eval64)

lemma scenario_trust_raw64:
  "lit 0.5 + lit 0.02 - lit 0.05 * Fin 2 = Fin (3783023686991217 / 2 ^ 53)"
  by (simp add: eval64)

lemma scenario_trust_clamp64:
  "py_max 0 (py_min 1 (Fin (3783023686991217 / 2 ^ 53))) = Fin (3783023686991217 / 2 ^ 53)"
  by (simp add: py_max_def py_min_def zero_pyfloat_def one_pyfloat_def)

lemma scenario_capacity64: "lit 8 + lit 0.3 * (lit 10 - lit 8) + 0 = lit 8.6"
  by (simp add: eval64)

lemma scenario_flow64:
  "lit 10 + lit 0.1 * Fin (3783023686991217 / 2 ^ 53) + 0 - Fin 2 = lit 8.042"
  by (simp add: eval64)

lemma lit_0_42: "lit 0.42 = Fin (7566047373982433 / 2 ^ 54)"
  by (simp add: eval64)

lemma scenario_step64:
  "engine_a_step64 scenario_state64 scenario_params64 0 0 =
     \<lparr>f_F = lit 8.042, f_C = lit 8.6, f_T = Fin (3783023686991217 / 2 ^ 53), f_D = lit 0.4\<rparr>"
  unfolding engine_a_step64_def
  by (simp only: Let_def EngineAState64.simps EngineAParams64.simps pressure_scenario64
      scenario_drift64 scenario_trust_raw64 scenario_trust_clamp64 scenario_capacity64
      scenario_flow64)

text \<open>
  C3, as the code has it. One Engine A step from F=10, C=8, T=0.5, D=0 with
  r=0.1, alpha=0.2, delta=0.1, lambda_trust=0.05, rho_trust=0.02,
  kappa_capacity=0.3 and zero shocks has pressure 2 and returns the floats
  D=0.4, C=8.6 and F=8.042, and T=0.42000000000000004, that is
  \<open>3783023686991217 / 2\<^sup>5\<^sup>3\<close>, one unit in the last place above the float 0.42.
\<close>

theorem engine_a_step64_scenario_A:
  "pressure64 (lit 10) (lit 8) = lit 2 \<and>
   engine_a_step64 scenario_state64 scenario_params64 0 0 =
     \<lparr>f_F = lit 8.042, f_C = lit 8.6, f_T = Fin (3783023686991217 / 2 ^ 53), f_D = lit 0.4\<rparr> \<and>
   lit 0.42 = Fin (7566047373982433 / 2 ^ 54) \<and>
   (3783023686991217 / 2 ^ 53 :: real) = 7566047373982433 / 2 ^ 54 + 1 / 2 ^ 54"
proof -
  have two: "lit 2 = Fin 2" by (simp add: lit_def round64_two)
  show ?thesis
    using scenario_step64 pressure_scenario64 two lit_0_42 by simp
qed

text \<open>The trust returned by that step is not the float 0.42.\<close>

theorem scenario_A_trust_is_not_0_42:
  "f_T (engine_a_step64 scenario_state64 scenario_params64 0 0) = Fin (3783023686991217 / 2 ^ 53) \<and>
   lit 0.42 = Fin (7566047373982433 / 2 ^ 54) \<and>
   f_T (engine_a_step64 scenario_state64 scenario_params64 0 0) \<noteq> lit 0.42"
proof -
  have "f_T (engine_a_step64 scenario_state64 scenario_params64 0 0) =
          Fin (3783023686991217 / 2 ^ 53)"
    unfolding engine_a_step64_def
    by (simp only: Let_def EngineAState64.simps EngineAParams64.simps pressure_scenario64
        scenario_trust_raw64 scenario_trust_clamp64)
  then show ?thesis
    using lit_0_42 by simp
qed

subsection \<open>Zero coupling over binary64\<close>

lemma representable_zero: "representable 0"
  by (simp add: representable_def zero_pyfloat_def exact64_zero)

lemma foldl_zero_coupling:
  assumes "\<forall>j<n. W j = 0 \<and> is_Fin (P j)"
  shows "foldl (\<lambda>total j. total + W j * P j) 0 [0..<n] = 0"
  using assms
proof (induction n)
  case 0
  then show ?case by simp
next
  case (Suc n)
  then have IH: "foldl (\<lambda>total j. total + W j * P j) 0 [0..<n] = 0" by simp
  from Suc.prems have "W n = 0" "is_Fin (P n)" by simp_all
  then obtain p where "P n = Fin p" by (cases "P n") (simp_all add: is_Fin_def)
  with IH \<open>W n = 0\<close> show ?case
    by (simp add: zero_times_Fin zero_plus_zero64)
qed

lemma engine_c_step64_zero_coupling:
  assumes "length (params_per_system64 params) = length (systems64 state)"
      and "length (coupling_W64 params) = length (systems64 state)"
      and "list_all (\<lambda>row. length row = length (systems64 state)) (coupling_W64 params)"
      and "\<forall>i<length (systems64 state). \<forall>j<length (systems64 state).
             coupling_W64 params ! i ! j = 0"
      and "\<forall>j<length (systems64 state).
             is_Fin (pressure64 (f_F (systems64 state ! j)) (f_C (systems64 state ! j)))"
      and "\<forall>i<length (systems64 state). representable (shock_at64 shocks_F i)"
  shows "engine_c_step64 state params shocks_F shocks_C =
     Inr \<lparr>systems64 = map (\<lambda>i. engine_a_step64 (systems64 state ! i)
              (params_per_system64 params ! i)
              (shock_at64 shocks_F i) (shock_at64 shocks_C i)) [0..<length (systems64 state)]\<rparr>"
proof -
  have "\<forall>i<length (systems64 state).
          shock_at64 shocks_F i +
            foldl (\<lambda>total j. total + coupling_W64 params ! i ! j *
                     pressure64 (f_F (systems64 state ! j)) (f_C (systems64 state ! j))) 0
              [0..<length (systems64 state)] = shock_at64 shocks_F i"
  proof (intro allI impI)
    fix i assume i: "i < length (systems64 state)"
    have "foldl (\<lambda>total j. total + coupling_W64 params ! i ! j *
                     pressure64 (f_F (systems64 state ! j)) (f_C (systems64 state ! j))) 0
              [0..<length (systems64 state)] = 0"
      using assms(4,5) i by (intro foldl_zero_coupling) simp
    then show "shock_at64 shocks_F i +
            foldl (\<lambda>total j. total + coupling_W64 params ! i ! j *
                     pressure64 (f_F (systems64 state ! j)) (f_C (systems64 state ! j))) 0
              [0..<length (systems64 state)] = shock_at64 shocks_F i"
      using assms(6) i by (simp add: add_zero64)
  qed
  then show ?thesis
    by (simp add: engine_c_step64_ok [OF assms(1-3)])
qed

lemma run_engine_a64_loop_append:
  "run_engine_a64_loop p sF sC ts s (h @ h') = h @ run_engine_a64_loop p sF sC ts s h'"
  by (induction ts arbitrary: s h') (simp_all add: Let_def)

lemma run_engine_a64_loop_Cons:
  "run_engine_a64_loop p None None (t # ts) s [] =
     engine_a_step64 s p 0 0 # run_engine_a64_loop p None None ts (engine_a_step64 s p 0 0) []"
proof -
  have "run_engine_a64_loop p None None (t # ts) s [] =
          run_engine_a64_loop p None None ts (engine_a_step64 s p 0 0)
            ([engine_a_step64 s p 0 0] @ [])"
    by (simp add: Let_def shock_at64_def)
  then show ?thesis
    by (simp only: run_engine_a64_loop_append) simp
qed

lemma run_engine_c64_loop_zero_coupling:
  assumes "length (params_per_system64 params) = N"
      and "length (coupling_W64 params) = N"
      and "list_all (\<lambda>row. length row = N) (coupling_W64 params)"
      and "\<forall>i<N. \<forall>j<N. coupling_W64 params ! i ! j = 0"
      and "length (systems64 state) = N"
      and "\<forall>i<N. \<forall>s\<in>set (butlast (systems64 state ! i #
                run_engine_a64_loop (params_per_system64 params ! i) None None ts
                  (systems64 state ! i) [])).
             is_Fin (pressure64 (f_F s) (f_C s))"
  shows "\<exists>rest. run_engine_c64_loop params ts state hist = Inr (hist @ rest) \<and>
           (\<forall>st\<in>set rest. length (systems64 st) = N) \<and>
           (\<forall>i<N. run_engine_a64_loop (params_per_system64 params ! i) None None ts
                      (systems64 state ! i) [] = map (\<lambda>st. systems64 st ! i) rest)"
  using assms(5,6)
proof (induction ts arbitrary: state hist)
  case Nil
  then show ?case by simp
next
  case (Cons t ts)
  let ?state' = "\<lparr>systems64 = map (\<lambda>i. engine_a_step64 (systems64 state ! i)
        (params_per_system64 params ! i) 0 0) [0..<N]\<rparr>"
  have fin_now: "\<forall>j<N. is_Fin (pressure64 (f_F (systems64 state ! j)) (f_C (systems64 state ! j)))"
    using Cons.prems(2) by (simp add: run_engine_a64_loop_Cons del: run_engine_a64_loop.simps)
  have step: "engine_c_step64 state params None None = Inr ?state'"
    using engine_c_step64_zero_coupling [of params state None None]
      assms(1-4) Cons.prems(1) fin_now
    by (simp add: shock_at64_def representable_zero)
  have len: "length (systems64 ?state') = N" by simp
  have fin_next: "\<forall>i<N. \<forall>s\<in>set (butlast (systems64 ?state' ! i #
                run_engine_a64_loop (params_per_system64 params ! i) None None ts
                  (systems64 ?state' ! i) [])).
             is_Fin (pressure64 (f_F s) (f_C s))"
    using Cons.prems(2) by (simp add: run_engine_a64_loop_Cons del: run_engine_a64_loop.simps)
  from Cons.IH [OF len fin_next, of "hist @ [?state']"]
  obtain rest where r: "run_engine_c64_loop params ts ?state' (hist @ [?state']) =
        Inr ((hist @ [?state']) @ rest)"
      "\<forall>st\<in>set rest. length (systems64 st) = N"
      "\<forall>i<N. run_engine_a64_loop (params_per_system64 params ! i) None None ts
                 (systems64 ?state' ! i) [] = map (\<lambda>st. systems64 st ! i) rest"
    by blast
  have a: "\<forall>i<N. run_engine_a64_loop (params_per_system64 params ! i) None None (t # ts)
                      (systems64 state ! i) [] = map (\<lambda>st. systems64 st ! i) (?state' # rest)"
    using r(3) by (simp add: run_engine_a64_loop_Cons del: run_engine_a64_loop.simps)
  show ?case
    apply (rule exI [of _ "?state' # rest"])
    using step r(1,2) a len by simp
qed

lemma run_engine_a64_unfold:
  "run_engine_a64 s p steps None None =
     s # run_engine_a64_loop p None None (range_py steps) s []"
proof -
  have "run_engine_a64 s p steps None None =
          run_engine_a64_loop p None None (range_py steps) s ([s] @ [])"
    by (simp add: run_engine_a64_def)
  then show ?thesis
    by (simp only: run_engine_a64_loop_append) simp
qed

lemma run_engine_c64_zero_coupling:
  assumes "length (params_per_system64 params) = length (systems64 state)"
      and "length (coupling_W64 params) = length (systems64 state)"
      and "list_all (\<lambda>row. length row = length (systems64 state)) (coupling_W64 params)"
      and "\<forall>i<length (systems64 state). \<forall>j<length (systems64 state).
             coupling_W64 params ! i ! j = 0"
      and "\<forall>i<length (systems64 state).
             \<forall>s\<in>set (butlast (run_engine_a64 (systems64 state ! i)
                          (params_per_system64 params ! i) steps None None)).
               is_Fin (pressure64 (f_F s) (f_C s))"
  shows "\<exists>hist. run_engine_c64 state params steps = Inr hist \<and>
           (\<forall>st\<in>set hist. length (systems64 st) = length (systems64 state)) \<and>
           (\<forall>i<length (systems64 state).
              map (\<lambda>st. systems64 st ! i) hist =
                run_engine_a64 (systems64 state ! i) (params_per_system64 params ! i)
                  steps None None)"
proof -
  have fin: "\<forall>i<length (systems64 state).
           \<forall>s\<in>set (butlast (systems64 state ! i #
                run_engine_a64_loop (params_per_system64 params ! i) None None (range_py steps)
                  (systems64 state ! i) [])).
             is_Fin (pressure64 (f_F s) (f_C s))"
    using assms(5) by (simp only: run_engine_a64_unfold)
  from run_engine_c64_loop_zero_coupling [OF assms(1-4) refl fin, of "[state]"]
  obtain rest where r: "run_engine_c64_loop params (range_py steps) state [state] =
        Inr ([state] @ rest)"
      "\<forall>st\<in>set rest. length (systems64 st) = length (systems64 state)"
      "\<forall>i<length (systems64 state).
          run_engine_a64_loop (params_per_system64 params ! i) None None (range_py steps)
            (systems64 state ! i) [] = map (\<lambda>st. systems64 st ! i) rest"
    by blast
  have "\<forall>i<length (systems64 state).
          map (\<lambda>st. systems64 st ! i) (state # rest) =
            run_engine_a64 (systems64 state ! i) (params_per_system64 params ! i)
              steps None None"
    using r(3) by (simp add: run_engine_a64_unfold)
  with r(1,2) show ?thesis
    by (intro exI [of _ "state # rest"]) (simp add: run_engine_c64_def)
qed

lemma singleton_systems64:
  assumes "\<forall>st\<in>set hist. length (systems64 st) = Suc 0"
  shows "hist = map (\<lambda>a. \<lparr>systems64 = [a]\<rparr>) (map (\<lambda>st. systems64 st ! 0) hist)"
  using assms
proof (induction hist)
  case Nil
  then show ?case by simp
next
  case (Cons st hist)
  then have "length (systems64 st) = Suc 0" by simp
  then obtain a where "systems64 st = [a]"
    by (cases "systems64 st") simp_all
  then have "st = \<lparr>systems64 = [systems64 st ! 0]\<rparr>" by (cases st) simp
  with Cons show ?case by simp
qed

lemma run_engine_c64_single:
  assumes "\<forall>s'\<in>set (butlast (run_engine_a64 s p steps None None)).
             is_Fin (pressure64 (f_F s') (f_C s'))"
  shows "run_engine_c64 \<lparr>systems64 = [s]\<rparr>
           \<lparr>params_per_system64 = [p], coupling_W64 = [[0]]\<rparr> steps =
         Inr (map (\<lambda>a. \<lparr>systems64 = [a]\<rparr>) (run_engine_a64 s p steps None None))"
proof -
  from run_engine_c64_zero_coupling
    [of "\<lparr>params_per_system64 = [p], coupling_W64 = [[0]]\<rparr>" "\<lparr>systems64 = [s]\<rparr>" steps] assms
  obtain hist where h:
    "run_engine_c64 \<lparr>systems64 = [s]\<rparr>
       \<lparr>params_per_system64 = [p], coupling_W64 = [[0]]\<rparr> steps = Inr hist"
    "\<forall>st\<in>set hist. length (systems64 st) = Suc 0"
    "map (\<lambda>st. systems64 st ! 0) hist = run_engine_a64 s p steps None None"
    by auto
  from singleton_systems64 [OF h(2)] h(3) h(1) show ?thesis by simp
qed

text \<open>
  C2, as the code has it. With an all-zero coupling matrix and the dimension
  checks passing, one Engine C step is, system by system, the Engine A step
  under the same exogenous shocks when every pressure of the state is finite;
  and the run of the Engine C driver, read at index \<open>i\<close>, is the run of the
  Engine A driver on system \<open>i\<close> alone (neither with exogenous shocks, as the
  Engine C driver passes none) when every pressure from which that run takes
  a step is finite. For one system and the matrix \<open>[[0.0]]\<close> the Engine C
  history is then the Engine A history, each state wrapped in a one-element
  network state.
\<close>

theorem zero_coupling_matches_engine_a64:
  "(length (params_per_system64 params) = length (systems64 state) \<and>
    length (coupling_W64 params) = length (systems64 state) \<and>
    list_all (\<lambda>row. length row = length (systems64 state)) (coupling_W64 params) \<and>
    (\<forall>i<length (systems64 state). \<forall>j<length (systems64 state).
        coupling_W64 params ! i ! j = 0) \<longrightarrow>
      ((\<forall>j<length (systems64 state).
          is_Fin (pressure64 (f_F (systems64 state ! j)) (f_C (systems64 state ! j)))) \<and>
       (\<forall>i<length (systems64 state). representable (shock_at64 shocks_F i)) \<longrightarrow>
         engine_c_step64 state params shocks_F shocks_C =
           Inr \<lparr>systems64 = map (\<lambda>i. engine_a_step64 (systems64 state ! i)
                    (params_per_system64 params ! i)
                    (shock_at64 shocks_F i) (shock_at64 shocks_C i))
                  [0..<length (systems64 state)]\<rparr>) \<and>
      ((\<forall>i<length (systems64 state).
          \<forall>s\<in>set (butlast (run_engine_a64 (systems64 state ! i)
                       (params_per_system64 params ! i) steps None None)).
            is_Fin (pressure64 (f_F s) (f_C s))) \<longrightarrow>
         (\<exists>hist. run_engine_c64 state params steps = Inr hist \<and>
            (\<forall>st\<in>set hist. length (systems64 st) = length (systems64 state)) \<and>
            (\<forall>i<length (systems64 state).
               map (\<lambda>st. systems64 st ! i) hist =
                 run_engine_a64 (systems64 state ! i) (params_per_system64 params ! i)
                   steps None None)))) \<and>
   ((\<forall>s'\<in>set (butlast (run_engine_a64 s p steps None None)).
        is_Fin (pressure64 (f_F s') (f_C s'))) \<longrightarrow>
      run_engine_c64 \<lparr>systems64 = [s]\<rparr>
          \<lparr>params_per_system64 = [p], coupling_W64 = [[0]]\<rparr> steps =
        Inr (map (\<lambda>a. \<lparr>systems64 = [a]\<rparr>) (run_engine_a64 s p steps None None)))"
  using engine_c_step64_zero_coupling [of params state shocks_F shocks_C]
        run_engine_c64_zero_coupling [of params state steps]
        run_engine_c64_single [of s p steps]
  by blast

lemma scenario_next_pressure64: "is_Fin (pressure64 (lit 8.042) (lit 8.6))"
  by (simp add: eval64 is_Fin_def)

theorem zero_coupling_matches_engine_a64_witness:
  "(\<exists>hist. run_engine_c64 \<lparr>systems64 = [scenario_state64, loaded_state64]\<rparr>
        \<lparr>params_per_system64 = [scenario_params64, scenario_params64],
         coupling_W64 = [[0, 0], [0, 0]]\<rparr> 1 = Inr hist \<and>
      map (\<lambda>st. systems64 st ! 0) hist =
        run_engine_a64 scenario_state64 scenario_params64 1 None None \<and>
      map (\<lambda>st. systems64 st ! 1) hist =
        run_engine_a64 loaded_state64 scenario_params64 1 None None) \<and>
   engine_c_step64 \<lparr>systems64 = [scenario_state64, loaded_state64]\<rparr>
        \<lparr>params_per_system64 = [scenario_params64, scenario_params64],
         coupling_W64 = [[0, 0], [0, 0]]\<rparr> (Some [Fin 1, Fin 2]) None =
     Inr \<lparr>systems64 = [engine_a_step64 scenario_state64 scenario_params64 (Fin 1) 0,
                        engine_a_step64 loaded_state64 scenario_params64 (Fin 2) 0]\<rparr> \<and>
   run_engine_c64 \<lparr>systems64 = [scenario_state64]\<rparr>
       \<lparr>params_per_system64 = [scenario_params64], coupling_W64 = [[0]]\<rparr> 2 =
     Inr (map (\<lambda>a. \<lparr>systems64 = [a]\<rparr>)
            (run_engine_a64 scenario_state64 scenario_params64 2 None None))"
proof -
  let ?ss = "[scenario_state64, loaded_state64]"
  let ?ps = "[scenario_params64, scenario_params64]"
  let ?W = "[[0, 0], [0, 0::pyfloat]]"
  let ?st = "\<lparr>systems64 = ?ss\<rparr>"
  let ?cp = "\<lparr>params_per_system64 = ?ps, coupling_W64 = ?W\<rparr>"
  have r1: "range_py 1 = [0]" by (simp add: range_py_def)
  have r2: "range_py 2 = [0, 1]" by (simp add: range_py_def upt_rec)
  have d: "length (params_per_system64 ?cp) = length (systems64 ?st)"
    "length (coupling_W64 ?cp) = length (systems64 ?st)"
    "list_all (\<lambda>row. length row = length (systems64 ?st)) (coupling_W64 ?cp)"
    by simp_all
  have z: "\<forall>i<length (systems64 ?st). \<forall>j<length (systems64 ?st). coupling_W64 ?cp ! i ! j = 0"
    by (simp add: less_Suc_eq all_conj_distrib nth_Cons')
  have fin0: "\<forall>j<length (systems64 ?st).
      is_Fin (pressure64 (f_F (systems64 ?st ! j)) (f_C (systems64 ?st ! j)))"
    by (simp add: less_Suc_eq all_conj_distrib pressure_scenario64 pressure_loaded64 is_Fin_def)
  have rep: "\<forall>i<length (systems64 ?st). representable (shock_at64 (Some [Fin 1, Fin 2]) i)"
    by (simp add: less_Suc_eq all_conj_distrib shock_at64_def representable_def exact64_def
        round64_one round64_two)
  have run1: "\<And>s p. butlast (run_engine_a64 s p 1 None None) = [s]"
    unfolding run_engine_a64_def r1 by (simp add: Let_def)
  have finrun: "\<forall>i<length (systems64 ?st).
      \<forall>s\<in>set (butlast (run_engine_a64 (systems64 ?st ! i) (params_per_system64 ?cp ! i)
                    1 None None)).
        is_Fin (pressure64 (f_F s) (f_C s))"
    using fin0 by (simp add: less_Suc_eq all_conj_distrib run1)
  have run2g: "\<And>s p. butlast (run_engine_a64 s p 2 None None) = [s, engine_a_step64 s p 0 0]"
    unfolding run_engine_a64_def r2 by (simp add: Let_def shock_at64_def)
  have run2: "butlast (run_engine_a64 scenario_state64 scenario_params64 2 None None) =
      [scenario_state64, engine_a_step64 scenario_state64 scenario_params64 0 0]"
    by (rule run2g)
  have step: "engine_a_step64 scenario_state64 scenario_params64 0 0 =
     \<lparr>f_F = lit 8.042, f_C = lit 8.6, f_T = Fin (3783023686991217 / 2 ^ 53), f_D = lit 0.4\<rparr>"
    by (rule scenario_step64)
  have finsingle: "\<forall>s'\<in>set (butlast (run_engine_a64 scenario_state64 scenario_params64
                      2 None None)).
        is_Fin (pressure64 (f_F s') (f_C s'))"
    unfolding run2 step
    using pressure_scenario64 scenario_next_pressure64 by (simp add: is_Fin_def)
  note t = zero_coupling_matches_engine_a64
    [of ?cp ?st "Some [Fin 1, Fin 2]" None 1 scenario_state64 scenario_params64]
  note t2 = zero_coupling_matches_engine_a64
    [of ?cp ?st "Some [Fin 1, Fin 2]" None 2 scenario_state64 scenario_params64]
  from t d z finrun obtain hist where h:
    "run_engine_c64 ?st ?cp 1 = Inr hist"
    "\<forall>i<length (systems64 ?st). map (\<lambda>st. systems64 st ! i) hist =
        run_engine_a64 (systems64 ?st ! i) (params_per_system64 ?cp ! i) 1 None None"
    by blast
  have h01: "map (\<lambda>st. systems64 st ! 0) hist =
        run_engine_a64 scenario_state64 scenario_params64 1 None None"
       "map (\<lambda>st. systems64 st ! 1) hist =
        run_engine_a64 loaded_state64 scenario_params64 1 None None"
    using h(2) by simp_all
  from t d z fin0 rep have s: "engine_c_step64 ?st ?cp (Some [Fin 1, Fin 2]) None =
      Inr \<lparr>systems64 = map (\<lambda>i. engine_a_step64 (systems64 ?st ! i)
                    (params_per_system64 ?cp ! i)
                    (shock_at64 (Some [Fin 1, Fin 2]) i) (shock_at64 None i))
                  [0..<length (systems64 ?st)]\<rparr>"
    by blast
  have s': "engine_c_step64 ?st ?cp (Some [Fin 1, Fin 2]) None =
     Inr \<lparr>systems64 = [engine_a_step64 scenario_state64 scenario_params64 (Fin 1) 0,
                        engine_a_step64 loaded_state64 scenario_params64 (Fin 2) 0]\<rparr>"
    unfolding s by (simp add: shock_at64_def upt_rec)
  from t2 finsingle have single:
    "run_engine_c64 \<lparr>systems64 = [scenario_state64]\<rparr>
       \<lparr>params_per_system64 = [scenario_params64], coupling_W64 = [[0]]\<rparr> 2 =
     Inr (map (\<lambda>a. \<lparr>systems64 = [a]\<rparr>)
            (run_engine_a64 scenario_state64 scenario_params64 2 None None))"
    by blast
  show ?thesis
    using h(1) h01 s' single by blast
qed

text \<open>
  From a state whose pressure overflows, Engine C adds the endogenous shock
  \<open>0.0 * \<infinity> = NaN\<close> and returns the flow NaN, where Engine A alone returns the
  flow \<open>-\<infinity>\<close>: the two histories differ at the first step.
\<close>

lemma overflow_trust_raw64: "lit 0.5 + lit 0.02 - lit 0.05 * PosInf = NegInf"
  by (simp add: eval64)

lemma overflow_trust_clamp64: "py_max 0 (py_min 1 NegInf) = 0"
  by (simp add: py_max_def py_min_def zero_pyfloat_def one_pyfloat_def)

lemma lit_times_zero64: "lit 0.1 * 0 = (0::pyfloat)"
  by (simp add: eval64)

lemma largest_binade_plus_zero: "Fin (2 ^ 1023) + (0::pyfloat) = Fin (2 ^ 1023)"
  using round64_largest_binade by (simp add: zero_pyfloat_def)

lemma overflow_flow64: "Fin (2 ^ 1023) + lit 0.1 * 0 + 0 - PosInf = NegInf"
proof -
  have "Fin (2 ^ 1023) - PosInf = NegInf" by (simp add: minus_pyfloat_def)
  then show ?thesis
    by (simp only: lit_times_zero64 largest_binade_plus_zero)
qed

lemma overflow_flow_nan64: "Fin (2 ^ 1023) + lit 0.1 * 0 + NaN - PosInf = NaN"
proof -
  have "Fin (2 ^ 1023) + NaN - PosInf = NaN" by (simp add: minus_pyfloat_def)
  then show ?thesis
    by (simp only: lit_times_zero64 largest_binade_plus_zero)
qed

lemma overflow_step_flow:
  "f_F (engine_a_step64 overflowing_state64 scenario_params64 0 0) = NegInf"
  unfolding engine_a_step64_def
  by (simp only: Let_def EngineAState64.simps EngineAParams64.simps overflowing_pressure
      overflow_trust_raw64 overflow_trust_clamp64 overflow_flow64)

lemma overflow_step_flow_nan:
  "f_F (engine_a_step64 overflowing_state64 scenario_params64 NaN 0) = NaN"
  unfolding engine_a_step64_def
  by (simp only: Let_def EngineAState64.simps EngineAParams64.simps overflowing_pressure
      overflow_trust_raw64 overflow_trust_clamp64 overflow_flow_nan64)

lemma overflow_engine_c_step:
  "engine_c_step64 \<lparr>systems64 = [overflowing_state64]\<rparr>
      \<lparr>params_per_system64 = [scenario_params64], coupling_W64 = [[0]]\<rparr> None None =
   Inr \<lparr>systems64 = [engine_a_step64 overflowing_state64 scenario_params64 NaN 0]\<rparr>"
proof -
  have shock: "shock_at64 None 0 + ((0::pyfloat) + 0 * PosInf) = NaN"
    by (simp add: shock_at64_def zero_pyfloat_def)
  have "engine_c_step64 \<lparr>systems64 = [overflowing_state64]\<rparr>
      \<lparr>params_per_system64 = [scenario_params64], coupling_W64 = [[0]]\<rparr> None None =
     Inr \<lparr>systems64 = map (\<lambda>i. engine_a_step64 ([overflowing_state64] ! i)
              ([scenario_params64] ! i)
              (shock_at64 None i +
                 foldl (\<lambda>total j. total + [[0]] ! i ! j *
                          pressure64 (f_F ([overflowing_state64] ! j))
                            (f_C ([overflowing_state64] ! j))) 0
                   [0..<length [overflowing_state64]])
              (shock_at64 None i)) [0..<length [overflowing_state64]]\<rparr>"
    by (subst engine_c_step64_ok) (simp_all del: One_nat_def)
  also have "[0..<length [overflowing_state64]] = [0]" by simp
  finally show ?thesis
    using shock overflowing_pressure by (simp add: shock_at64_def)
qed

theorem zero_coupling_overflow_differs:
  "run_engine_a64 overflowing_state64 scenario_params64 1 None None =
     [overflowing_state64, engine_a_step64 overflowing_state64 scenario_params64 0 0] \<and>
   run_engine_c64 \<lparr>systems64 = [overflowing_state64]\<rparr>
      \<lparr>params_per_system64 = [scenario_params64], coupling_W64 = [[0]]\<rparr> 1 =
     Inr [\<lparr>systems64 = [overflowing_state64]\<rparr>,
          \<lparr>systems64 = [engine_a_step64 overflowing_state64 scenario_params64 NaN 0]\<rparr>] \<and>
   f_F (engine_a_step64 overflowing_state64 scenario_params64 0 0) = NegInf \<and>
   f_F (engine_a_step64 overflowing_state64 scenario_params64 NaN 0) = NaN"
proof -
  have r: "range_py 1 = [0]" by (simp add: range_py_def)
  have a: "run_engine_a64 overflowing_state64 scenario_params64 1 None None =
     [overflowing_state64, engine_a_step64 overflowing_state64 scenario_params64 0 0]"
    unfolding run_engine_a64_def r by (simp add: Let_def shock_at64_def)
  have c: "run_engine_c64 \<lparr>systems64 = [overflowing_state64]\<rparr>
      \<lparr>params_per_system64 = [scenario_params64], coupling_W64 = [[0]]\<rparr> 1 =
     Inr [\<lparr>systems64 = [overflowing_state64]\<rparr>,
          \<lparr>systems64 = [engine_a_step64 overflowing_state64 scenario_params64 NaN 0]\<rparr>]"
    unfolding run_engine_c64_def r
    by (simp only: run_engine_c64_loop.simps overflow_engine_c_step sum.case append.simps)
  from a c overflow_step_flow overflow_step_flow_nan show ?thesis by blast
qed

end
